theory Spec2Isabelle
  imports Complex_Main
begin

section \<open>Python values, exceptions and strings\<close>

text \<open>
  The services exchange JSON-like Python values: the output of the speech model, the body of
  a Pub/Sub message after \<^verbatim>\<open>json.loads\<close>, the transcript that is persisted
  and the result dictionaries kept in memory. A dictionary is an association list in
  insertion order with string keys; a lookup reads the first binding of a key.
  A Python float is a finite number, one of the two infinities or not a number; the
  finite ones are modelled as reals. The code only passes floats on, except for one
  subtraction of two clock readings whose value no property below depends on.
\<close>

datatype pyfloat = Finite real | PosInf | NegInf | NaN

datatype pyval =
    PNone
  | PBool bool
  | PInt int
  | PFloat pyfloat
  | PStr string
  | PList "pyval list"
  | PDict "(string \<times> pyval) list"

type_synonym pydict = "(string \<times> pyval) list"

text \<open>
  Exceptions. Every constructor is a subclass of \<^verbatim>\<open>Exception\<close>:
  \<^verbatim>\<open>except Exception\<close> catches all of them. The three classes the code names
  are constructors of their own: a JSON decoding error and a disconnect of the client,
  each with the text \<^verbatim>\<open>str(e)\<close> gives, and an HTTP exception with its status
  code and detail. \<open>PyError cls msg\<close> is any other exception, with its class name
  and its text. Exceptions that are not an \<^verbatim>\<open>Exception\<close> (a cancelled task,
  a keyboard interrupt) are not modelled.
\<close>

datatype exn =
    JSONDecodeError string
  | WebSocketDisconnect string
  | HTTPException nat string
  | PyError string string

text \<open>A natural number in decimal, as an f-string prints it.\<close>

definition digit_char :: "nat \<Rightarrow> char" where
  "digit_char d = char_of (48 + d)"

fun show_nat :: "nat \<Rightarrow> string" where
  "show_nat n = (if n < 10 then [digit_char n] else show_nat (n div 10) @ [digit_char (n mod 10)])"

text \<open>
  \<^verbatim>\<open>str(e)\<close>. An HTTP exception prints as its status code, a colon and its
  detail.
\<close>

fun str_exn :: "exn \<Rightarrow> string" where
  "str_exn (JSONDecodeError m) = m"
| "str_exn (WebSocketDisconnect m) = m"
| "str_exn (HTTPException code detail) = show_nat code @ '': '' @ detail"
| "str_exn (PyError cls m) = m"

definition AttributeError :: "string \<Rightarrow> exn" where
  "AttributeError m = PyError ''AttributeError'' m"

definition TypeError :: "string \<Rightarrow> exn" where
  "TypeError m = PyError ''TypeError'' m"

definition ValueError :: "string \<Rightarrow> exn" where
  "ValueError m = PyError ''ValueError'' m"

definition ValidationError :: "string \<Rightarrow> exn" where
  "ValidationError m = PyError ''ValidationError'' m"

text \<open>\<^verbatim>\<open>d.get(k, default)\<close> and \<^verbatim>\<open>d.get(k)\<close> on a dictionary.\<close>

definition dict_get :: "pydict \<Rightarrow> string \<Rightarrow> pyval \<Rightarrow> pyval" where
  "dict_get d k dflt = (case map_of d k of None \<Rightarrow> dflt | Some v \<Rightarrow> v)"


text \<open>The name of a value's type, and the two messages that quote it.\<close>

fun py_type_name :: "pyval \<Rightarrow> string" where
  "py_type_name PNone = ''NoneType''"
| "py_type_name (PBool b) = ''bool''"
| "py_type_name (PInt n) = ''int''"
| "py_type_name (PFloat x) = ''float''"
| "py_type_name (PStr s) = ''str''"
| "py_type_name (PList xs) = ''list''"
| "py_type_name (PDict d) = ''dict''"

definition quoted :: "string \<Rightarrow> string" where
  "quoted s = [CHR 0x27] @ s @ [CHR 0x27]"

definition no_attribute :: "pyval \<Rightarrow> string \<Rightarrow> exn" where
  "no_attribute v attr =
     AttributeError (quoted (py_type_name v) @ '' object has no attribute '' @ quoted attr)"

definition not_iterable :: "pyval \<Rightarrow> exn" where
  "not_iterable v = TypeError (quoted (py_type_name v) @ '' object is not iterable'')"

text \<open>
  \<^verbatim>\<open>x.get(k, default)\<close> on any value: only a dictionary has the method, every
  other value raises AttributeError.
\<close>

fun py_get :: "pyval \<Rightarrow> string \<Rightarrow> pyval \<Rightarrow> exn + pyval" where
  "py_get (PDict d) k dflt = Inr (dict_get d k dflt)"
| "py_get v k dflt = Inl (no_attribute v ''get'')"

text \<open>
  Iterating a value in a \<^verbatim>\<open>for\<close> loop: a list gives its elements, a dictionary
  its keys, a string its characters; the other values are not iterable.
\<close>

fun py_iter :: "pyval \<Rightarrow> exn + pyval list" where
  "py_iter (PList xs) = Inr xs"
| "py_iter (PDict d) = Inr (map (\<lambda>kv. PStr (fst kv)) d)"
| "py_iter (PStr s) = Inr (map (\<lambda>c. PStr [c]) s)"
| "py_iter v = Inl (not_iterable v)"

text \<open>Truthiness, as \<^verbatim>\<open>if x:\<close> and \<^verbatim>\<open>a and b\<close> read a value.\<close>

fun py_truthy :: "pyval \<Rightarrow> bool" where
  "py_truthy PNone = False"
| "py_truthy (PBool b) = b"
| "py_truthy (PInt n) = (n \<noteq> 0)"
| "py_truthy (PFloat x) = (x \<noteq> Finite 0)"
| "py_truthy (PStr s) = (s \<noteq> [])"
| "py_truthy (PList xs) = (xs \<noteq> [])"
| "py_truthy (PDict d) = (d \<noteq> [])"

text \<open>An optional string as a Python value (\<^verbatim>\<open>None\<close> or a \<^verbatim>\<open>str\<close>).\<close>

fun py_opt_str :: "string option \<Rightarrow> pyval" where
  "py_opt_str None = PNone"
| "py_opt_str (Some s) = PStr s"

subsection \<open>Strings\<close>

text \<open>
  A \<^typ>\<open>string\<close> holds the UTF-8 bytes of a Python \<^verbatim>\<open>str\<close>.
  \<^verbatim>\<open>lower()\<close> maps A..Z to a..z and \<^verbatim>\<open>strip()\<close> removes the ASCII
  white space (tab, line feed, vertical tab, form feed, carriage return, the four
  separators 0x1C..0x1F and space) at both ends; bytes of code points outside ASCII are
  left as they are. Python also lower-cases letters and strips white space outside
  ASCII (U+0085, U+00A0, U+3000 and others). No code point outside ASCII lower-cases to
  a character of the supported suffixes, so the suffix tests below read the same on the
  bytes; and no property below depends on the text of a segment.
\<close>

definition lower_char :: "char \<Rightarrow> char" where
  "lower_char c =
     (let n = (of_char c :: nat) in if 65 \<le> n \<and> n \<le> 90 then char_of (n + 32) else c)"

definition py_lower :: "string \<Rightarrow> string" where
  "py_lower s = map lower_char s"

definition is_space :: "char \<Rightarrow> bool" where
  "is_space c = (let n = (of_char c :: nat) in (9 \<le> n \<and> n \<le> 13) \<or> (28 \<le> n \<and> n \<le> 32))"

definition py_strip :: "string \<Rightarrow> string" where
  "py_strip s = rev (dropWhile is_space (rev (dropWhile is_space s)))"

definition py_endswith :: "string \<Rightarrow> string \<Rightarrow> bool" where
  "py_endswith s suf = (length suf \<le> length s \<and> drop (length s - length suf) s = suf)"

text \<open>\<^verbatim>\<open>s.split(sep)\<close> for a one-character separator, never an empty list.\<close>

fun split_on :: "char \<Rightarrow> string \<Rightarrow> string list" where
  "split_on sep [] = [[]]"
| "split_on sep (c # cs) =
     (if c = sep then [] # split_on sep cs
      else (case split_on sep cs of
              [] \<Rightarrow> [[c]]
            | w # ws \<Rightarrow> (c # w) # ws))"

text \<open>\<^verbatim>\<open>s.rfind(c)\<close>: the index of the last occurrence, \<open>None\<close> for -1.\<close>

fun rfind :: "char \<Rightarrow> string \<Rightarrow> nat option" where
  "rfind c [] = None"
| "rfind c (x # xs) =
     (case rfind c xs of
        Some i \<Rightarrow> Some (Suc i)
      | None \<Rightarrow> (if x = c then Some 0 else None))"

subsection \<open>pathlib and os.path\<close>

text \<open>
  \<^verbatim>\<open>Path(p).name\<close> on POSIX: the last component of the path, after empty and
  \<^verbatim>\<open>.\<close> components are dropped; empty when there is none.
  \<^verbatim>\<open>suffix\<close> starts at the last dot of the name, unless that dot is the first or
  the last character; \<^verbatim>\<open>stem\<close> is the name without the suffix (pathlib up to
  Python 3.13).
\<close>

definition path_name :: "string \<Rightarrow> string" where
  "path_name p =
     (case rev (filter (\<lambda>x. x \<noteq> [] \<and> x \<noteq> ''.'') (split_on (CHR ''/'') p)) of
        [] \<Rightarrow> []
      | n # _ \<Rightarrow> n)"

definition path_suffix :: "string \<Rightarrow> string" where
  "path_suffix p =
     (let name = path_name p in
      case rfind (CHR ''.'') name of
        None \<Rightarrow> []
      | Some i \<Rightarrow> if 0 < i \<and> i < length name - 1 then drop i name else [])"


text \<open>
  \<^verbatim>\<open>os.path.join(a, b)\<close> for a directory name \<open>a\<close> that is not empty and does
  not end in a slash: an absolute \<open>b\<close> replaces \<open>a\<close>.
\<close>

definition path_join :: "string \<Rightarrow> string \<Rightarrow> string" where
  "path_join a b = (if b \<noteq> [] \<and> hd b = CHR ''/'' then b else a @ ''/'' @ b)"

subsection \<open>Message literals\<close>

text \<open>The UTF-8 bytes of the message literal at api.py:70 (bucket or file name was not provided).\<close>

definition msg_missing_bucket_or_name :: string where
  "msg_missing_bucket_or_name =
    [CHR 0xEB, CHR 0xB2, CHR 0x84, CHR 0xED, CHR 0x82, CHR 0xB7, CHR '' '', CHR 0xEB, CHR 0x98,
     CHR 0x90, CHR 0xEB, CHR 0x8A, CHR 0x94, CHR '' '', CHR 0xED, CHR 0x8C, CHR 0x8C, CHR 0xEC,
     CHR 0x9D, CHR 0xBC, CHR 0xEB, CHR 0xAA, CHR 0x85, CHR 0xEC, CHR 0x9D, CHR 0xB4, CHR '' '',
     CHR 0xEC, CHR 0xA0, CHR 0x9C, CHR 0xEA, CHR 0xB3, CHR 0xB5, CHR 0xEB, CHR 0x90, CHR 0x98,
     CHR 0xEC, CHR 0xA7, CHR 0x80, CHR '' '', CHR 0xEC, CHR 0x95, CHR 0x8A, CHR 0xEC, CHR 0x95,
     CHR 0x98, CHR 0xEC, CHR 0x8A, CHR 0xB5, CHR 0xEB, CHR 0x8B, CHR 0x88, CHR 0xEB, CHR 0x8B,
     CHR 0xA4]"

text \<open>The UTF-8 bytes of the message literal at api.py:79,142, the prefix of the f-string (unsupported file format).\<close>

definition msg_unsupported_format :: string where
  "msg_unsupported_format =
    [CHR 0xEC, CHR 0xA7, CHR 0x80, CHR 0xEC, CHR 0x9B, CHR 0x90, CHR 0xEB, CHR 0x90, CHR 0x98,
     CHR 0xEC, CHR 0xA7, CHR 0x80, CHR '' '', CHR 0xEC, CHR 0x95, CHR 0x8A, CHR 0xEB, CHR 0x8A,
     CHR 0x94, CHR '' '', CHR 0xED, CHR 0x8C, CHR 0x8C, CHR 0xEC, CHR 0x9D, CHR 0xBC,
     CHR '' '', CHR 0xED, CHR 0x98, CHR 0x95, CHR 0xEC, CHR 0x8B, CHR 0x9D, CHR '':'',
     CHR '' '']"

text \<open>The UTF-8 bytes of the message literal at api.py:96,169 (audio processing has started).\<close>

definition msg_processing_started :: string where
  "msg_processing_started =
    [CHR 0xEC, CHR 0x98, CHR 0xA4, CHR 0xEB, CHR 0x94, CHR 0x94, CHR 0xEC, CHR 0x98, CHR 0xA4,
     CHR '' '', CHR 0xEC, CHR 0xB2, CHR 0x98, CHR 0xEB, CHR 0xA6, CHR 0xAC, CHR 0xEA, CHR 0xB0,
     CHR 0x80, CHR '' '', CHR 0xEC, CHR 0x8B, CHR 0x9C, CHR 0xEC, CHR 0x9E, CHR 0x91, CHR 0xEB,
     CHR 0x90, CHR 0x98, CHR 0xEC, CHR 0x97, CHR 0x88, CHR 0xEC, CHR 0x8A, CHR 0xB5, CHR 0xEB,
     CHR 0x8B, CHR 0x88, CHR 0xEB, CHR 0x8B, CHR 0xA4]"

text \<open>The UTF-8 bytes of the message literal at api.py:104 (malformed message).\<close>

definition msg_bad_message_format :: string where
  "msg_bad_message_format =
    [CHR 0xEC, CHR 0x9E, CHR 0x98, CHR 0xEB, CHR 0xAA, CHR 0xBB, CHR 0xEB, CHR 0x90, CHR 0x9C,
     CHR '' '', CHR 0xEB, CHR 0xA9, CHR 0x94, CHR 0xEC, CHR 0x8B, CHR 0x9C, CHR 0xEC, CHR 0xA7,
     CHR 0x80, CHR '' '', CHR 0xED, CHR 0x98, CHR 0x95, CHR 0xEC, CHR 0x8B, CHR 0x9D]"

text \<open>The UTF-8 bytes of the message literal at api.py:111,177 (internal server error).\<close>

definition msg_internal_server_error :: string where
  "msg_internal_server_error =
    [CHR 0xEC, CHR 0x84, CHR 0x9C, CHR 0xEB, CHR 0xB2, CHR 0x84, CHR '' '', CHR 0xEB, CHR 0x82,
     CHR 0xB4, CHR 0xEB, CHR 0xB6, CHR 0x80, CHR '' '', CHR 0xEC, CHR 0x98, CHR 0xA4, CHR 0xEB,
     CHR 0xA5, CHR 0x98]"

text \<open>The UTF-8 bytes of the message literal at api.py:197, the prefix of the f-string (no transcription result for the requested id).\<close>

definition msg_result_not_found :: string where
  "msg_result_not_found =
    [CHR 0xEC, CHR 0x9A, CHR 0x94, CHR 0xEC, CHR 0xB2, CHR 0xAD, CHR 0xEB, CHR 0x90, CHR 0x9C,
     CHR '' '', CHR ''I'', CHR ''D'', CHR 0xEC, CHR 0x9D, CHR 0x98, CHR '' '', CHR 0xED,
     CHR 0x8A, CHR 0xB8, CHR 0xEB, CHR 0x9E, CHR 0x9C, CHR 0xEC, CHR 0x8A, CHR 0xA4, CHR 0xED,
     CHR 0x81, CHR 0xAC, CHR 0xEB, CHR 0xA6, CHR 0xBD, CHR 0xEC, CHR 0x85, CHR 0x98, CHR '' '',
     CHR 0xEA, CHR 0xB2, CHR 0xB0, CHR 0xEA, CHR 0xB3, CHR 0xBC, CHR 0xEB, CHR 0xA5, CHR 0xBC,
     CHR '' '', CHR 0xEC, CHR 0xB0, CHR 0xBE, CHR 0xEC, CHR 0x9D, CHR 0x84, CHR '' '',
     CHR 0xEC, CHR 0x88, CHR 0x98, CHR '' '', CHR 0xEC, CHR 0x97, CHR 0x86, CHR 0xEC, CHR 0x8A,
     CHR 0xB5, CHR 0xEB, CHR 0x8B, CHR 0x88, CHR 0xEB, CHR 0x8B, CHR 0xA4, CHR '':'', CHR '' '']"

text \<open>The UTF-8 bytes of the message literal at api.py:209, the default of result.get (error during processing).\<close>

definition msg_error_during_processing :: string where
  "msg_error_during_processing =
    [CHR 0xEC, CHR 0xB2, CHR 0x98, CHR 0xEB, CHR 0xA6, CHR 0xAC, CHR '' '', CHR 0xEC, CHR 0xA4,
     CHR 0x91, CHR '' '', CHR 0xEC, CHR 0x98, CHR 0xA4, CHR 0xEB, CHR 0xA5, CHR 0x98,
     CHR '' '', CHR 0xEB, CHR 0xB0, CHR 0x9C, CHR 0xEC, CHR 0x83, CHR 0x9D]"

text \<open>The UTF-8 bytes of the message literal at api.py:221, the default of result.get (processing).\<close>

definition msg_in_progress :: string where
  "msg_in_progress =
    [CHR 0xEC, CHR 0xB2, CHR 0x98, CHR 0xEB, CHR 0xA6, CHR 0xAC, CHR '' '', CHR 0xEC, CHR 0xA4,
     CHR 0x91]"

text \<open>The UTF-8 bytes of the message literal at api.py:239 (finished, but no transcription data found).\<close>

definition msg_done_without_data :: string where
  "msg_done_without_data =
    [CHR 0xEC, CHR 0xB2, CHR 0x98, CHR 0xEB, CHR 0xA6, CHR 0xAC, CHR '' '', CHR 0xEC, CHR 0x99,
     CHR 0x84, CHR 0xEB, CHR 0xA3, CHR 0x8C, CHR 0xEB, CHR 0x90, CHR 0x98, CHR 0xEC, CHR 0x97,
     CHR 0x88, CHR 0xEC, CHR 0x9C, CHR 0xBC, CHR 0xEB, CHR 0x82, CHR 0x98, CHR '' '', CHR 0xED,
     CHR 0x8A, CHR 0xB8, CHR 0xEB, CHR 0x9E, CHR 0x9C, CHR 0xEC, CHR 0x8A, CHR 0xA4, CHR 0xED,
     CHR 0x81, CHR 0xAC, CHR 0xEB, CHR 0xA6, CHR 0xBD, CHR 0xEC, CHR 0x85, CHR 0x98, CHR '' '',
     CHR 0xEB, CHR 0x8D, CHR 0xB0, CHR 0xEC, CHR 0x9D, CHR 0xB4, CHR 0xED, CHR 0x84, CHR 0xB0,
     CHR 0xEB, CHR 0xA5, CHR 0xBC, CHR '' '', CHR 0xEC, CHR 0xB0, CHR 0xBE, CHR 0xEC, CHR 0x9D,
     CHR 0x84, CHR '' '', CHR 0xEC, CHR 0x88, CHR 0x98, CHR '' '', CHR 0xEC, CHR 0x97,
     CHR 0x86, CHR 0xEC, CHR 0x8A, CHR 0xB5, CHR 0xEB, CHR 0x8B, CHR 0x88, CHR 0xEB, CHR 0x8B,
     CHR 0xA4]"

text \<open>The UTF-8 bytes of the message literal at processor.py:255,346 (audio processing finished).\<close>

definition msg_audio_done :: string where
  "msg_audio_done =
    [CHR 0xEC, CHR 0x98, CHR 0xA4, CHR 0xEB, CHR 0x94, CHR 0x94, CHR 0xEC, CHR 0x98, CHR 0xA4,
     CHR '' '', CHR 0xEC, CHR 0xB2, CHR 0x98, CHR 0xEB, CHR 0xA6, CHR 0xAC, CHR '' '',
     CHR 0xEC, CHR 0x99, CHR 0x84, CHR 0xEB, CHR 0xA3, CHR 0x8C]"

text \<open>The UTF-8 bytes of the message literal at processor.py:275,366 (error while processing audio).\<close>

definition msg_audio_error :: string where
  "msg_audio_error =
    [CHR 0xEC, CHR 0x98, CHR 0xA4, CHR 0xEB, CHR 0x94, CHR 0x94, CHR 0xEC, CHR 0x98, CHR 0xA4,
     CHR '' '', CHR 0xEC, CHR 0xB2, CHR 0x98, CHR 0xEB, CHR 0xA6, CHR 0xAC, CHR '' '',
     CHR 0xEC, CHR 0xA4, CHR 0x91, CHR '' '', CHR 0xEC, CHR 0x98, CHR 0xA4, CHR 0xEB, CHR 0xA5,
     CHR 0x98, CHR '' '', CHR 0xEB, CHR 0xB0, CHR 0x9C, CHR 0xEC, CHR 0x83, CHR 0x9D]"


text \<open>The UTF-8 bytes of the message literal at api.py:35 (the Pub/Sub subscription header is required).\<close>

definition msg_pubsub_header_required :: string where
  "msg_pubsub_header_required =
    [CHR ''P'', CHR ''u'', CHR ''b'', CHR ''/'', CHR ''S'', CHR ''u'', CHR ''b'', CHR '' '',
     CHR 0xEA, CHR 0xB5, CHR 0xAC, CHR 0xEB, CHR 0x8F, CHR 0x85, CHR '' '', CHR 0xED, CHR 0x97,
     CHR 0xA4, CHR 0xEB, CHR 0x8D, CHR 0x94, CHR 0xEA, CHR 0xB0, CHR 0x80, CHR '' '', CHR 0xED,
     CHR 0x95, CHR 0x84, CHR 0xEC, CHR 0x9A, CHR 0x94, CHR 0xED, CHR 0x95, CHR 0xA9, CHR 0xEB,
     CHR 0x8B, CHR 0x88, CHR 0xEB, CHR 0x8B, CHR 0xA4]"


text \<open>The UTF-8 bytes of the message literal at main.py:60 (an internal server error occurred).\<close>

definition msg_unhandled :: string where
  "msg_unhandled =
    [CHR 0xEB, CHR 0x82, CHR 0xB4, CHR 0xEB, CHR 0xB6, CHR 0x80, CHR '' '', CHR 0xEC, CHR 0x84,
     CHR 0x9C, CHR 0xEB, CHR 0xB2, CHR 0x84, CHR '' '', CHR 0xEC, CHR 0x98, CHR 0xA4, CHR 0xEB,
     CHR 0xA5, CHR 0x98, CHR 0xEA, CHR 0xB0, CHR 0x80, CHR '' '', CHR 0xEB, CHR 0xB0, CHR 0x9C,
     CHR 0xEC, CHR 0x83, CHR 0x9D, CHR 0xED, CHR 0x96, CHR 0x88, CHR 0xEC, CHR 0x8A, CHR 0xB5,
     CHR 0xEB, CHR 0x8B, CHR 0x88, CHR 0xEB, CHR 0x8B, CHR 0xA4]"

section \<open>The WhisperLive service: \<^verbatim>\<open>src/processor.py\<close>\<close>

subsection \<open>Configuration and the external capabilities\<close>

text \<open>The process environment, \<^verbatim>\<open>os.environ\<close>.\<close>

type_synonym environ = "string \<rightharpoonup> string"

definition environ_get :: "environ \<Rightarrow> string \<Rightarrow> string \<Rightarrow> string" where
  "environ_get env k dflt = (case env k of None \<Rightarrow> dflt | Some v \<Rightarrow> v)"

text \<open>The module constants read from the environment when the module is imported.\<close>

definition TRANSCRIPT_BUCKET :: "environ \<Rightarrow> string option" where
  "TRANSCRIPT_BUCKET env = env ''TRANSCRIPT_BUCKET''"

definition LANGUAGE :: "environ \<Rightarrow> string" where
  "LANGUAGE env = environ_get env ''LANGUAGE'' ''ko''"

text \<open>Truthiness of an optional string: \<^verbatim>\<open>None\<close> and the empty string are false.\<close>

fun opt_truthy :: "string option \<Rightarrow> bool" where
  "opt_truthy None = False"
| "opt_truthy (Some s) = (s \<noteq> [])"

text \<open>
  The speech model is an external capability. Its calls are the fields of a record: what
  the constructors raise (\<open>None\<close> when they succeed), and what loading a file, resetting
  the state and one inference pass return or raise.
\<close>

type_synonym audio = "pyfloat list"

record asr =
  model_ctor :: "exn option"
  audio_ctor :: "exn option"
  load_audio_file :: "string \<Rightarrow> exn + audio"
  reset_state :: "exn option"
  inference :: "audio \<Rightarrow> exn + pyval"

text \<open>
  The module globals: whether \<^verbatim>\<open>model\<close> and \<^verbatim>\<open>audio_processor\<close> are set
  (not \<^verbatim>\<open>None\<close>), and the in-memory dictionary of results. A request id is an
  optional string: \<^verbatim>\<open>process_audio_file\<close> takes \<^verbatim>\<open>Optional[str]\<close> and
  \<^verbatim>\<open>None\<close> is a dictionary key like any other.
\<close>

type_synonym results_store = "string option \<rightharpoonup> pydict"

record proc =
  model :: bool
  audio_processor :: bool
  transcription_results :: results_store

definition initial_proc :: proc where
  "initial_proc = \<lparr>model = False, audio_processor = False, transcription_results = Map.empty\<rparr>"

text \<open>\<^verbatim>\<open>load_model\<close>, lines 49-69: lazy initialisation of the two globals.\<close>

definition load_model :: "asr \<Rightarrow> proc \<Rightarrow> (exn + unit) \<times> proc" where
  "load_model a st =
     (if \<not> model st then
        (case model_ctor a of
           Some e \<Rightarrow> (Inl e, st)
         | None \<Rightarrow>
             (let st1 = st\<lparr>model := True\<rparr> in
              case audio_ctor a of
                Some e \<Rightarrow> (Inl e, st1)
              | None \<Rightarrow> (Inr (), st1\<lparr>audio_processor := True\<rparr>)))
      else (Inr (), st))"

text \<open>
  Module import, lines 72-76: the model is loaded ahead of the first request, and a
  failure is logged as a warning and swallowed.
\<close>

definition startup :: "asr \<Rightarrow> proc" where
  "startup a = snd (load_model a initial_proc)"

subsection \<open>\<^verbatim>\<open>process_audio\<close>, lines 170-219\<close>

text \<open>One segment dictionary, lines 199-204.\<close>

definition segment_dict :: "nat \<Rightarrow> pyval \<Rightarrow> exn + pyval" where
  "segment_dict i segment =
     (case py_get segment ''start'' (PInt 0) of
        Inl e \<Rightarrow> Inl e
      | Inr s \<Rightarrow>
     (case py_get segment ''end'' (PInt 0) of
        Inl e \<Rightarrow> Inl e
      | Inr en \<Rightarrow>
     (case py_get segment ''text'' (PStr []) of
        Inl e \<Rightarrow> Inl e
      | Inr t \<Rightarrow>
          (case t of
             PStr t' \<Rightarrow>
               Inr (PDict [(''id'', PInt (int i)), (''start'', s), (''end'', en),
                           (''text'', PStr (py_strip t'))])
           | _ \<Rightarrow> Inl (no_attribute t ''strip'')))))"

text \<open>
  The loop of lines 197-205 over \<^verbatim>\<open>enumerate(...)\<close>: \<open>acc\<close> is
  \<^verbatim>\<open>segments_list\<close>, \<open>i\<close> the running index.
\<close>

fun segments_loop :: "pyval list \<Rightarrow> nat \<Rightarrow> pyval list \<Rightarrow> exn + pyval list" where
  "segments_loop acc i [] = Inr acc"
| "segments_loop acc i (segment # rest) =
     (case segment_dict i segment of
        Inl e \<Rightarrow> Inl e
      | Inr d \<Rightarrow> segments_loop (acc @ [d]) (Suc i) rest)"

text \<open>Lines 196-212: from the model's result to the transcript.\<close>

definition transcript_of :: "environ \<Rightarrow> pyval \<Rightarrow> exn + pydict" where
  "transcript_of env result =
     (case py_get result ''segments'' (PList []) of
        Inl e \<Rightarrow> Inl e
      | Inr segs \<Rightarrow>
     (case py_iter segs of
        Inl e \<Rightarrow> Inl e
      | Inr xs \<Rightarrow>
     (case segments_loop [] 0 xs of
        Inl e \<Rightarrow> Inl e
      | Inr segments_list \<Rightarrow>
     (case py_get result ''text'' (PStr []) of
        Inl e \<Rightarrow> Inl e
      | Inr t \<Rightarrow>
          Inr [(''segments'', PList segments_list),
               (''language'', PStr (LANGUAGE env)),
               (''text'', t)]))))"

text \<open>
  The whole function. The \<^verbatim>\<open>except\<close> clause logs and raises again, so an
  exception of any step is the function's own.
\<close>

definition process_audio :: "environ \<Rightarrow> asr \<Rightarrow> proc \<Rightarrow> string \<Rightarrow> (exn + pydict) \<times> proc" where
  "process_audio env a st audio_file_path =
     (case load_model a st of
        (Inl e, st1) \<Rightarrow> (Inl e, st1)
      | (Inr u, st1) \<Rightarrow>
          if \<not> audio_processor st1
          then (Inl (no_attribute PNone ''load_audio_file''), st1)
          else
            (case load_audio_file a audio_file_path of
               Inl e \<Rightarrow> (Inl e, st1)
             | Inr audio_data \<Rightarrow>
            (case reset_state a of
               Some e \<Rightarrow> (Inl e, st1)
             | None \<Rightarrow>
            (case inference a audio_data of
               Inl e \<Rightarrow> (Inl e, st1)
             | Inr result \<Rightarrow> (transcript_of env result, st1)))))"

subsection \<open>Storage, the file system and the clock\<close>

text \<open>
  The calls into Cloud Storage and the file system, as a record of their outcomes:
  whether the module's \<^verbatim>\<open>storage_client\<close> was created, the temporary file a
  download leaves (or what it raises), what an upload or a local write of a JSON
  document raises (\<open>None\<close> when it succeeds), and the two calls of the clean-up.
\<close>

record storage =
  storage_client :: bool
  download :: "string \<Rightarrow> string \<Rightarrow> exn + string"
  upload_from_string :: "string \<Rightarrow> string \<Rightarrow> pyval \<Rightarrow> exn option"
  write_json :: "string \<Rightarrow> pyval \<Rightarrow> exn option"
  path_exists :: "string \<Rightarrow> bool"
  os_remove :: "string \<Rightarrow> exn option"

text \<open>The two readings of \<^verbatim>\<open>time.time()\<close> one invocation makes.\<close>

record clock =
  start_time :: real
  end_time :: real

text \<open>
  Where a transcript was persisted: an object of a bucket or a local file. A function
  that persists returns the documents it wrote, in order.
\<close>

datatype sink = GCS string string | LocalFile string

type_synonym writes = "(sink \<times> pyval) list"



text \<open>
  The clean-up of a \<^verbatim>\<open>finally\<close> block: the temporary file is removed when it
  exists. What the removal raises leaves the function in place of its return value.
\<close>

definition cleanup :: "storage \<Rightarrow> string \<Rightarrow> exn option" where
  "cleanup sto p = (if path_exists sto p then os_remove sto p else None)"

definition py_finally :: "exn option \<Rightarrow> exn + 'a \<Rightarrow> exn + 'a" where
  "py_finally c r = (case c of Some e \<Rightarrow> Inl e | None \<Rightarrow> r)"

text \<open>The result dictionaries of lines 253-260 and 344-351, and 273-279 and 364-370.\<close>

definition success_result :: "string option \<Rightarrow> pyval \<Rightarrow> real \<Rightarrow> pyval \<Rightarrow> pydict" where
  "success_result request_id transcript_location processing_time transcript_result =
     [(''status'', PStr ''success''),
      (''message'', PStr msg_audio_done),
      (''request_id'', py_opt_str request_id),
      (''transcript_location'', transcript_location),
      (''processing_time_seconds'', PFloat (Finite processing_time)),
      (''result'', transcript_result)]"

definition error_result :: "string option \<Rightarrow> exn \<Rightarrow> real \<Rightarrow> pydict" where
  "error_result request_id e processing_time =
     [(''status'', PStr ''error''),
      (''message'', PStr msg_audio_error),
      (''request_id'', py_opt_str request_id),
      (''error_details'', PStr (str_exn e)),
      (''processing_time_seconds'', PFloat (Finite processing_time))]"

definition store_result :: "proc \<Rightarrow> string option \<Rightarrow> pydict \<Rightarrow> proc" where
  "store_result st request_id r =
     st\<lparr>transcription_results := (transcription_results st)(request_id \<mapsto> r)\<rparr>"

subsection \<open>\<^verbatim>\<open>process_audio_file\<close>, lines 222-289\<close>

text \<open>
  What one invocation leaves: the value returned or the exception that escapes, the
  module globals afterwards, and the documents persisted.
\<close>

record outcome =
  returned :: "exn + pydict"
  globals :: proc
  persisted :: writes



subsection \<open>\<^verbatim>\<open>process_uploaded_file\<close>, lines 292-380\<close>

text \<open>
  Lines 311-338: the transcript goes to the bucket when a client and a bucket are
  configured, and a failed upload is logged and ignored; otherwise it is written to a
  local file, whose failure is the function's own.
\<close>

definition save_uploaded_transcript ::
  "environ \<Rightarrow> storage \<Rightarrow> pyval \<Rightarrow> string \<Rightarrow> (exn + string option) \<times> writes" where
  "save_uploaded_transcript env sto transcript_result request_id =
     (let base_name = ''upload_'' @ request_id;
          result_file_name = base_name @ ''.json''
      in if storage_client sto \<and> opt_truthy (TRANSCRIPT_BUCKET env) then
           (let bucket = the (TRANSCRIPT_BUCKET env) in
            case upload_from_string sto bucket result_file_name transcript_result of
              Some e \<Rightarrow> (Inr None, [])
            | None \<Rightarrow>
                (Inr (Some (''gs://'' @ bucket @ ''/'' @ result_file_name)),
                 [(GCS bucket result_file_name, transcript_result)]))
         else
           (let output_file = path_join ''transcripts'' result_file_name in
            case write_json sto output_file transcript_result of
              Some e \<Rightarrow> (Inl e, [])
            | None \<Rightarrow> (Inr (Some output_file), [(LocalFile output_file, transcript_result)])))"

definition process_uploaded_file_try ::
  "environ \<Rightarrow> asr \<Rightarrow> storage \<Rightarrow> clock \<Rightarrow> proc \<Rightarrow> string \<Rightarrow> string
     \<Rightarrow> (exn + pydict) \<times> proc \<times> writes" where
  "process_uploaded_file_try env a sto clk st file_path request_id =
     (case process_audio env a st file_path of
        (Inl e, st1) \<Rightarrow> (Inl e, st1, [])
      | (Inr transcript_result, st1) \<Rightarrow>
     (case save_uploaded_transcript env sto (PDict transcript_result) request_id of
        (Inl e, ws) \<Rightarrow> (Inl e, st1, ws)
      | (Inr transcript_location, ws) \<Rightarrow>
          (let processing_time = end_time clk - start_time clk;
               result = success_result (Some request_id) (py_opt_str transcript_location)
                          processing_time (PDict transcript_result)
           in (Inr result, store_result st1 (Some request_id) result, ws))))"

text \<open>
  The arguments \<^verbatim>\<open>language\<close> and \<^verbatim>\<open>beam_size\<close> are taken and never read.
\<close>

definition process_uploaded_file ::
  "environ \<Rightarrow> asr \<Rightarrow> storage \<Rightarrow> clock \<Rightarrow> proc \<Rightarrow> string \<Rightarrow> string \<Rightarrow> string option \<Rightarrow> int
     \<Rightarrow> outcome" where
  "process_uploaded_file env a sto clk st file_path request_id lang beam_size =
     (case process_uploaded_file_try env a sto clk st file_path request_id of
        (r, st1, ws) \<Rightarrow>
          (let (ret, st2) =
                 (case r of
                    Inr result \<Rightarrow> (result, st1)
                  | Inl e \<Rightarrow>
                      (let err = error_result (Some request_id) e
                                   (end_time clk - start_time clk)
                       in (err, store_result st1 (Some request_id) err)))
           in \<lparr>returned = py_finally (cleanup sto file_path) (Inr ret), globals = st2,
                persisted = ws\<rparr>))"

section \<open>The Faster-Whisper service: \<^verbatim>\<open>containers/whisper/src/processor.py\<close>\<close>

text \<open>
  The objects \<^verbatim>\<open>faster_whisper\<close> returns: the words and segments of a
  transcription, and its \<^verbatim>\<open>info\<close>. The segments come as a generator, which
  transcribes lazily and so may raise after any number of segments.
\<close>

record fw_word =
  w_word :: string
  w_start :: pyfloat
  w_end :: pyfloat
  w_probability :: pyfloat

record fw_segment =
  seg_start :: pyfloat
  seg_end :: pyfloat
  seg_text :: string
  seg_words :: "fw_word list option"

record fw_info =
  info_language :: string
  info_language_probability :: pyfloat

datatype 'a generator = Exhausted | Yield 'a "'a generator" | Raise exn

text \<open>
  The model: what its constructor raises, and \<^verbatim>\<open>transcribe\<close> by file,
  language and beam size.
\<close>

record fw_capability =
  fw_ctor :: "exn option"
  fw_transcribe :: "string \<Rightarrow> string \<Rightarrow> int \<Rightarrow> exn + (fw_segment generator \<times> fw_info)"

record fw_proc =
  fw_model :: bool
  fw_transcription_results :: results_store

text \<open>\<^verbatim>\<open>load_model\<close>, lines 34-44.\<close>

definition fw_load_model :: "fw_capability \<Rightarrow> fw_proc \<Rightarrow> (exn + unit) \<times> fw_proc" where
  "fw_load_model m st =
     (if \<not> fw_model st then
        (case fw_ctor m of
           Some e \<Rightarrow> (Inl e, st)
         | None \<Rightarrow> (Inr (), st\<lparr>fw_model := True\<rparr>))
      else (Inr (), st))"

text \<open>Lines 154-164 and 284-294: one segment dictionary; \<open>n\<close> is \<^verbatim>\<open>len(segments_list)\<close>.\<close>

definition fw_word_dict :: "fw_word \<Rightarrow> pyval" where
  "fw_word_dict w =
     PDict [(''word'', PStr (w_word w)), (''start'', PFloat (w_start w)),
            (''end'', PFloat (w_end w)), (''probability'', PFloat (w_probability w))]"

definition fw_segment_dict :: "nat \<Rightarrow> fw_segment \<Rightarrow> pyval" where
  "fw_segment_dict n segment =
     PDict [(''id'', PInt (int n)),
            (''start'', PFloat (seg_start segment)),
            (''end'', PFloat (seg_end segment)),
            (''text'', PStr (py_strip (seg_text segment))),
            (''words'', PList (map fw_word_dict
                                 (case seg_words segment of None \<Rightarrow> [] | Some ws \<Rightarrow> ws)))]"

text \<open>The loop of lines 153-167 and 283-297 over the generator.\<close>

fun fw_segments_loop ::
  "pyval list \<Rightarrow> string \<Rightarrow> fw_segment generator \<Rightarrow> exn + (pyval list \<times> string)" where
  "fw_segments_loop segments_list full_text Exhausted = Inr (segments_list, full_text)"
| "fw_segments_loop segments_list full_text (Raise e) = Inl e"
| "fw_segments_loop segments_list full_text (Yield segment rest) =
     fw_segments_loop
       (segments_list @ [fw_segment_dict (length segments_list) segment])
       (full_text @ seg_text segment @ '' '') rest"

text \<open>Lines 148-175 and 278-305: from the generator and the info to the transcript.\<close>

definition fw_transcript_of :: "fw_segment generator \<Rightarrow> fw_info \<Rightarrow> exn + pydict" where
  "fw_transcript_of segments_generator info =
     (case fw_segments_loop [] [] segments_generator of
        Inl e \<Rightarrow> Inl e
      | Inr (segments_list, full_text) \<Rightarrow>
          Inr [(''segments'', PList segments_list),
               (''language'', PStr (info_language info)),
               (''text'', PStr (py_strip full_text)),
               (''language_probability'', PFloat (info_language_probability info))])"

text \<open>\<^verbatim>\<open>process_audio\<close>, lines 125-182.\<close>

definition fw_process_audio ::
  "fw_capability \<Rightarrow> fw_proc \<Rightarrow> string \<Rightarrow> (exn + pydict) \<times> fw_proc" where
  "fw_process_audio m st audio_file_path =
     (case fw_load_model m st of
        (Inl e, st1) \<Rightarrow> (Inl e, st1)
      | (Inr u, st1) \<Rightarrow>
          (case fw_transcribe m audio_file_path ''ko'' 5 of
             Inl e \<Rightarrow> (Inl e, st1)
           | Inr (segments_generator, info) \<Rightarrow>
               (fw_transcript_of segments_generator info, st1)))"






section \<open>The WhisperX service: \<^verbatim>\<open>containers/whisperx/src/processor.py\<close>\<close>




section \<open>The HTTP interface: \<^verbatim>\<open>src/api.py\<close> and \<^verbatim>\<open>src/models.py\<close>\<close>

datatype StatusEnum = SUCCESS | ERROR | PENDING | PROCESSING | SKIPPED

fun status_value :: "StatusEnum \<Rightarrow> string" where
  "status_value SUCCESS = ''success''"
| "status_value ERROR = ''error''"
| "status_value PENDING = ''pending''"
| "status_value PROCESSING = ''processing''"
| "status_value SKIPPED = ''skipped''"

record AudioProcessingRequest =
  req_bucket :: string
  req_name :: string
  req_session_id :: "string option"

record AudioProcessingResponse =
  resp_status :: StatusEnum
  resp_message :: string
  resp_request_id :: "string option"
  resp_transcript_location :: "string option"
  resp_processing_time_seconds :: "pyfloat option"
  resp_error_details :: "string option"

record HealthResponse =
  health_status :: string
  health_version :: string
  health_environment :: "string option"

text \<open>A response built from the three fields the handlers set; the others default to \<^verbatim>\<open>None\<close>.\<close>

definition response :: "StatusEnum \<Rightarrow> string \<Rightarrow> string \<Rightarrow> AudioProcessingResponse" where
  "response s m rid =
     \<lparr>resp_status = s, resp_message = m, resp_request_id = Some rid,
      resp_transcript_location = None, resp_processing_time_seconds = None,
      resp_error_details = None\<rparr>"

text \<open>The calls a handler hands to \<^verbatim>\<open>background_tasks.add_task\<close>, with their arguments.\<close>

datatype task =
    ProcessAudioFile string string "string option" string
  | ProcessUploadedFile string string "string option" int

definition API_VERSION :: string where
  "API_VERSION = ''v1''"

definition supported_formats :: "string list" where
  "supported_formats = [''.mp3'', ''.wav'', ''.m4a'', ''.flac'', ''.ogg'', ''.aac'']"

text \<open>
  \<^verbatim>\<open>AudioProcessingRequest(bucket=..., name=..., session_id=...)\<close>: the validation
  of pydantic 2. A required \<^verbatim>\<open>str\<close> field takes a string, an
  \<^verbatim>\<open>Optional[str]\<close> field a string or \<^verbatim>\<open>None\<close>; any other value is a
  validation error (pydantic 1 would turn a number into a string). The text of the
  error, which lists the fields refused, is shortened to its first words.
\<close>

fun pydantic_str :: "pyval \<Rightarrow> string option" where
  "pydantic_str (PStr s) = Some s"
| "pydantic_str v = None"

fun pydantic_opt_str :: "pyval \<Rightarrow> string option option" where
  "pydantic_opt_str PNone = Some None"
| "pydantic_opt_str (PStr s) = Some (Some s)"
| "pydantic_opt_str v = None"

definition make_request :: "pyval \<Rightarrow> pyval \<Rightarrow> pyval \<Rightarrow> exn + AudioProcessingRequest" where
  "make_request b n s =
     (case (pydantic_str b, pydantic_str n, pydantic_opt_str s) of
        (Some b', Some n', Some s') \<Rightarrow>
          Inr \<lparr>req_bucket = b', req_name = n', req_session_id = s'\<rparr>
      | _ \<Rightarrow> Inl (ValidationError ''validation error for AudioProcessingRequest''))"

text \<open>
  The body of a Pub/Sub message is read by
  \<^verbatim>\<open>base64.b64decode(...).decode("utf-8")\<close> and \<^verbatim>\<open>json.loads\<close>. The
  two library calls together are a parameter of the handler: from the message's
  \<^verbatim>\<open>data\<close> to the decoded value or the exception raised.
\<close>

type_synonym decoder = "string \<Rightarrow> exn + pyval"

text \<open>\<^verbatim>\<open>verify_pubsub_token\<close>, lines 32-36.\<close>

definition verify_pubsub_token :: "string option \<Rightarrow> exn + string" where
  "verify_pubsub_token x_goog_subscription =
     (case x_goog_subscription of
        None \<Rightarrow> Inl (HTTPException 401 msg_pubsub_header_required)
      | Some h \<Rightarrow> Inr h)"

text \<open>
  \<^verbatim>\<open>transcribe_audio\<close>, lines 39-114 (and lines 35-110 of the WhisperX
  service's \<^verbatim>\<open>api.py\<close>, the same text). First the \<^verbatim>\<open>try\<close> block, with the
  request id drawn in it; then the function with its two \<^verbatim>\<open>except\<close> clauses,
  each of which draws an id of its own.
\<close>

definition transcribe_audio_try ::
  "decoder \<Rightarrow> string \<Rightarrow> string \<Rightarrow> exn + (AudioProcessingResponse \<times> task list)" where
  "transcribe_audio_try decode message_data request_id =
     (case decode message_data of
        Inl e \<Rightarrow> Inl e
      | Inr data \<Rightarrow>
     (case py_get data ''bucket'' PNone of
        Inl e \<Rightarrow> Inl e
      | Inr b \<Rightarrow>
     (case py_get data ''name'' PNone of
        Inl e \<Rightarrow> Inl e
      | Inr n \<Rightarrow>
     (case py_get data ''session_id'' PNone of
        Inl e \<Rightarrow> Inl e
      | Inr s \<Rightarrow>
     (case make_request b n s of
        Inl e \<Rightarrow> Inl e
      | Inr request \<Rightarrow>
          if req_bucket request = [] \<or> req_name request = [] then
            Inr (response ERROR msg_missing_bucket_or_name request_id, [])
          else if \<not> list_ex (py_endswith (py_lower (req_name request))) supported_formats then
            Inr (response SKIPPED (msg_unsupported_format @ req_name request) request_id, [])
          else
            Inr (response PENDING msg_processing_started request_id,
                 [ProcessAudioFile (req_bucket request) (req_name request)
                    (req_session_id request) request_id]))))))"

definition transcribe_audio ::
  "decoder \<Rightarrow> string \<Rightarrow> string \<Rightarrow> string \<Rightarrow> AudioProcessingResponse \<times> task list" where
  "transcribe_audio decode message_data request_id fresh_id =
     (case transcribe_audio_try decode message_data request_id of
        Inr r \<Rightarrow> r
      | Inl (JSONDecodeError m) \<Rightarrow> (response ERROR msg_bad_message_format fresh_id, [])
      | Inl e \<Rightarrow>
          ((response ERROR msg_internal_server_error fresh_id)
             \<lparr>resp_error_details := Some (str_exn e)\<rparr>, []))"

text \<open>
  \<^verbatim>\<open>upload_and_transcribe\<close>, lines 117-180. The upload's file name, and the
  outcomes of creating the temporary file, reading the upload and writing the copy.
\<close>

record upload_io =
  named_temporary_file :: "string \<Rightarrow> exn + string"
  read_upload :: "exn + string"
  write_file :: "string \<Rightarrow> string \<Rightarrow> exn option"

definition upload_and_transcribe_try ::
  "upload_io \<Rightarrow> string \<Rightarrow> string option \<Rightarrow> int \<Rightarrow> string
     \<Rightarrow> exn + (AudioProcessingResponse \<times> task list)" where
  "upload_and_transcribe_try io filename lang beam_size request_id =
     (let file_extension = py_lower (path_suffix filename) in
      if \<not> list_ex (py_endswith file_extension) supported_formats then
        Inr (response SKIPPED (msg_unsupported_format @ filename) request_id, [])
      else
        (case named_temporary_file io file_extension of
           Inl e \<Rightarrow> Inl e
         | Inr temp_file_path \<Rightarrow>
        (case read_upload io of
           Inl e \<Rightarrow> Inl e
         | Inr content \<Rightarrow>
        (case write_file io temp_file_path content of
           Some e \<Rightarrow> Inl e
         | None \<Rightarrow>
             Inr (response PENDING msg_processing_started request_id,
                  [ProcessUploadedFile temp_file_path request_id lang beam_size])))))"

definition upload_and_transcribe ::
  "upload_io \<Rightarrow> string \<Rightarrow> string option \<Rightarrow> int \<Rightarrow> string \<Rightarrow> string
     \<Rightarrow> AudioProcessingResponse \<times> task list" where
  "upload_and_transcribe io filename lang beam_size request_id fresh_id =
     (case upload_and_transcribe_try io filename lang beam_size request_id of
        Inr r \<Rightarrow> r
      | Inl e \<Rightarrow>
          ((response ERROR msg_internal_server_error fresh_id)
             \<lparr>resp_error_details := Some (str_exn e)\<rparr>, []))"

text \<open>
  \<^verbatim>\<open>JSONResponse(status_code=..., content=...)\<close>. The body is rendered when the
  response is constructed, by \<^verbatim>\<open>json.dumps\<close> with \<^verbatim>\<open>allow_nan=False\<close>:
  a float that is infinite or not a number, anywhere in the content, makes the
  constructor raise \<^verbatim>\<open>ValueError\<close>. (\<^verbatim>\<open>json.dump\<close> and
  \<^verbatim>\<open>json.dumps\<close> as the processors call them accept such a float.) The text of
  the exception is the one of the encoder; newer versions of Python append the value.
\<close>

primrec json_compliant :: "pyval \<Rightarrow> bool" where
  "json_compliant PNone = True"
| "json_compliant (PBool b) = True"
| "json_compliant (PInt n) = True"
| "json_compliant (PFloat x) = (case x of Finite r \<Rightarrow> True | _ \<Rightarrow> False)"
| "json_compliant (PStr s) = True"
| "json_compliant (PList xs) = list_all id (map json_compliant xs)"
| "json_compliant (PDict d) = list_all snd (map (map_prod id json_compliant) d)"

definition JSONResponse :: "nat \<Rightarrow> pyval \<Rightarrow> exn + (nat \<times> pyval)" where
  "JSONResponse status_code content =
     (if json_compliant content then Inr (status_code, content)
      else Inl (ValueError ''Out of range float values are not JSON compliant''))"

text \<open>
  \<^verbatim>\<open>get_transcription_result\<close>, lines 183-243: an
  \<^verbatim>\<open>HTTPException\<close> raised, the exception of a response that cannot be
  constructed, or the status code and the content of the \<^verbatim>\<open>JSONResponse\<close>
  returned.
\<close>

definition get_transcription_result :: "results_store \<Rightarrow> string \<Rightarrow> exn + (nat \<times> pyval)" where
  "get_transcription_result store request_id =
     (case store (Some request_id) of
        None \<Rightarrow> Inl (HTTPException 404 (msg_result_not_found @ request_id))
      | Some result \<Rightarrow>
          if dict_get result ''status'' PNone = PStr ''error'' then
            JSONResponse 500
              (PDict [(''status'', PStr ''error''),
                      (''message'', dict_get result ''message'' (PStr msg_error_during_processing)),
                      (''request_id'', PStr request_id),
                      (''error_details'', dict_get result ''error_details'' PNone)])
          else if dict_get result ''status'' PNone \<noteq> PStr ''success'' then
            JSONResponse 200
              (PDict [(''status'', dict_get result ''status'' (PStr ''unknown'')),
                      (''message'', dict_get result ''message'' (PStr msg_in_progress)),
                      (''request_id'', PStr request_id)])
          else
            (case map_of result ''result'' of
               Some r \<Rightarrow>
                 if py_truthy r then JSONResponse 200 r
                 else
                   JSONResponse 200
                     (PDict [(''status'', PStr ''success''),
                             (''message'', PStr msg_done_without_data),
                             (''request_id'', PStr request_id),
                             (''transcript_location'',
                                dict_get result ''transcript_location'' PNone)])
             | None \<Rightarrow>
                 JSONResponse 200
                   (PDict [(''status'', PStr ''success''),
                           (''message'', PStr msg_done_without_data),
                           (''request_id'', PStr request_id),
                           (''transcript_location'',
                              dict_get result ''transcript_location'' PNone)])))"




text \<open>\<^verbatim>\<open>health_check\<close>, lines 282-296: it reads the environment and nothing else.\<close>

definition health_check :: "environ \<Rightarrow> HealthResponse" where
  "health_check env =
     \<lparr>health_status = ''healthy'', health_version = API_VERSION,
      health_environment = Some (environ_get env ''ENVIRONMENT'' ''development'')\<rparr>"

section \<open>The application: \<^verbatim>\<open>main.py\<close>\<close>

text \<open>
  \<^verbatim>\<open>global_exception_handler\<close>, lines 54-61: the status code and the JSON
  content, whatever the exception.
\<close>

definition global_exception_handler :: "exn \<Rightarrow> nat \<times> pyval" where
  "global_exception_handler exc =
     (500, PDict [(''status'', PStr ''error''), (''message'', PStr msg_unhandled)])"

text \<open>
  What the caller of a route receives. An \<^verbatim>\<open>HTTPException\<close> is answered by the
  framework with its status code and its detail; every other exception that leaves a
  handler goes to the handler registered for \<^verbatim>\<open>Exception\<close>.
\<close>

definition answer :: "exn + (nat \<times> pyval) \<Rightarrow> nat \<times> pyval" where
  "answer r =
     (case r of
        Inr resp \<Rightarrow> resp
      | Inl (HTTPException code detail) \<Rightarrow> (code, PDict [(''detail'', PStr detail)])
      | Inl e \<Rightarrow> global_exception_handler e)"

text \<open>The JSON body of an \<^verbatim>\<open>AudioProcessingResponse\<close>, as the response model writes it.\<close>

fun py_opt_float :: "pyfloat option \<Rightarrow> pyval" where
  "py_opt_float None = PNone"
| "py_opt_float (Some x) = PFloat x"

definition response_json :: "AudioProcessingResponse \<Rightarrow> pyval" where
  "response_json r =
     PDict [(''status'', PStr (status_value (resp_status r))),
            (''message'', PStr (resp_message r)),
            (''request_id'', py_opt_str (resp_request_id r)),
            (''transcript_location'', py_opt_str (resp_transcript_location r)),
            (''processing_time_seconds'', py_opt_float (resp_processing_time_seconds r)),
            (''error_details'', py_opt_str (resp_error_details r))]"

text \<open>
  The route \<^verbatim>\<open>POST /api/v1/transcribe\<close> as its caller sees it: the dependency
  first, then the handler, whose response is sent with status 202. The body of the
  request is a Pub/Sub envelope here: the framework refuses any other body before the
  route runs.
\<close>

definition post_transcribe ::
  "decoder \<Rightarrow> string option \<Rightarrow> string \<Rightarrow> string \<Rightarrow> string \<Rightarrow> (nat \<times> pyval) \<times> task list" where
  "post_transcribe decode x_goog_subscription message_data request_id fresh_id =
     (case verify_pubsub_token x_goog_subscription of
        Inl e \<Rightarrow> (answer (Inl e), [])
      | Inr h \<Rightarrow>
          (case transcribe_audio decode message_data request_id fresh_id of
             (r, tasks) \<Rightarrow> (answer (Inr (202, response_json r)), tasks)))"

subsection \<open>The streaming endpoint\<close>

text \<open>
  Modelled from the spec: \<^verbatim>\<open>WebSocketManager\<close> is imported from
  \<^verbatim>\<open>src/websocket.py\<close>, which is not among the sources, so its three methods are
  parameters over a state \<open>'m\<close> of the manager. \<open>register\<close> is the registry's
  \<^verbatim>\<open>create\<close> of section 4.4 of the specification: it draws an identifier and
  inserts the session, and writes nothing to the transport. \<open>process_audio\<close> returns the
  frames it sent to the client and the exception it raised, if any.
\<close>

record 'm manager =
  register :: "'m \<Rightarrow> (exn + string) \<times> 'm"
  manager_process_audio :: "'m \<Rightarrow> string \<Rightarrow> string \<Rightarrow> (pyval list \<times> exn option) \<times> 'm"
  unregister :: "'m \<Rightarrow> string \<Rightarrow> exn option \<times> 'm"

text \<open>
  One call of \<^verbatim>\<open>receive_bytes\<close> returns the bytes of a frame or raises
  (\<^verbatim>\<open>WebSocketDisconnect\<close> when the client has left). A connection is what
  \<^verbatim>\<open>accept\<close> and the first \<^verbatim>\<open>send_json\<close> raise (\<open>None\<close> when they
  succeed) and the receive events that have happened so far.
\<close>

datatype recv = Data string | Fails exn

record connection =
  accept :: "exn option"
  send_json :: "exn option"
  incoming :: "recv list"

definition connected_frame :: "string \<Rightarrow> pyval" where
  "connected_frame session_id =
     PDict [(''event'', PStr ''connected''), (''session_id'', PStr session_id)]"

text \<open>
  The loop of lines 87-96, over the receive events. It returns the frames sent, the
  manager's state, and the exception that ended the loop; \<open>None\<close> when the events are
  used up and the endpoint waits in \<^verbatim>\<open>receive_bytes\<close>.
\<close>

fun receive_loop ::
  "'m manager \<Rightarrow> string \<Rightarrow> recv list \<Rightarrow> 'm \<Rightarrow> pyval list \<times> 'm \<times> exn option" where
  "receive_loop mgr session_id [] m = ([], m, None)"
| "receive_loop mgr session_id (Fails e # rest) m = ([], m, Some e)"
| "receive_loop mgr session_id (Data d # rest) m =
     (if d = [] then receive_loop mgr session_id rest m
      else
        (case manager_process_audio mgr m session_id d of
           ((frames, Some e), m1) \<Rightarrow> (frames, m1, Some e)
         | ((frames, None), m1) \<Rightarrow>
             (case receive_loop mgr session_id rest m1 of
                (later, m2, x) \<Rightarrow> (frames @ later, m2, x))))"

text \<open>
  \<^verbatim>\<open>websocket_endpoint\<close>, lines 71-105: the frames sent to the client, the
  manager's state afterwards, and whether the endpoint has returned. Both
  \<^verbatim>\<open>except\<close> clauses only log; the \<^verbatim>\<open>finally\<close> block unregisters a
  session whose identifier is set and not empty. An exception of
  \<^verbatim>\<open>unregister\<close> would leave the endpoint; it sends no frame and is not kept.
\<close>

definition ws_finally :: "'m manager \<Rightarrow> string option \<Rightarrow> 'm \<Rightarrow> 'm" where
  "ws_finally mgr session_id m =
     (if opt_truthy session_id then snd (unregister mgr m (the session_id)) else m)"

definition websocket_endpoint ::
  "'m manager \<Rightarrow> connection \<Rightarrow> 'm \<Rightarrow> pyval list \<times> 'm \<times> bool" where
  "websocket_endpoint mgr conn m =
     (case accept conn of
        Some e \<Rightarrow> ([], ws_finally mgr None m, True)
      | None \<Rightarrow>
          (case register mgr m of
             (Inl e, m1) \<Rightarrow> ([], ws_finally mgr None m1, True)
           | (Inr session_id, m1) \<Rightarrow>
               (case send_json conn of
                  Some e \<Rightarrow> ([], ws_finally mgr (Some session_id) m1, True)
                | None \<Rightarrow>
                    (case receive_loop mgr session_id (incoming conn) m1 of
                       (frames, m2, Some e) \<Rightarrow>
                         (connected_frame session_id # frames,
                          ws_finally mgr (Some session_id) m2, True)
                     | (frames, m2, None) \<Rightarrow>
                         (connected_frame session_id # frames, m2, False)))))"

section \<open>The session registry of the specification\<close>

text \<open>
  Modelled from the spec: no file among the sources defines a session registry (the
  manager of \<^verbatim>\<open>src/websocket.py\<close> is absent), so the registry follows section
  4.4 of the specification: \<^verbatim>\<open>create\<close> inserts a session in state CONNECTING
  under a fresh identifier, \<^verbatim>\<open>get\<close> looks an identifier up, and
  \<^verbatim>\<open>remove\<close> deletes the entry of an identifier, where removing an identifier
  that is not there is a no-op and not an error. The session has the fields of section 3.
\<close>

datatype session_state = CONNECTING | ACTIVE | FINALIZING | CLOSED

record session =
  s_id :: string
  s_state :: session_state
  s_sequence_counter :: nat
  s_accumulated_text :: string
  s_buffer :: string

type_synonym registry = "string \<rightharpoonup> session"

definition registry_create :: "string \<Rightarrow> registry \<Rightarrow> session \<times> registry" where
  "registry_create fresh r =
     (let s = \<lparr>s_id = fresh, s_state = CONNECTING, s_sequence_counter = 0,
                s_accumulated_text = [], s_buffer = []\<rparr>
      in (s, r(fresh \<mapsto> s)))"

definition registry_get :: "string \<Rightarrow> registry \<Rightarrow> session option" where
  "registry_get i r = r i"

text \<open>The value returned is \<open>Inr ()\<close> for \<^verbatim>\<open>None\<close>; \<open>Inl\<close> would be an error raised.\<close>

definition registry_remove :: "string \<Rightarrow> registry \<Rightarrow> (exn + unit) \<times> registry" where
  "registry_remove i r =
     (case r i of
        None \<Rightarrow> (Inr (), r)
      | Some s \<Rightarrow> (Inr (), r(i := None)))"

section \<open>Reading transcripts, results and requests\<close>

text \<open>The \<^verbatim>\<open>id\<close> of a segment dictionary, and the segments of a transcript.\<close>

fun segment_id :: "pyval \<Rightarrow> pyval option" where
  "segment_id (PDict d) = map_of d ''id''"
| "segment_id v = None"

definition transcript_segments :: "pydict \<Rightarrow> pyval list option" where
  "transcript_segments d =
     (case map_of d ''segments'' of
        Some (PList segs) \<Rightarrow> Some segs
      | _ \<Rightarrow> None)"







text \<open>The status a result dictionary carries.\<close>

definition result_status :: "pydict \<Rightarrow> pyval" where
  "result_status r = dict_get r ''status'' PNone"


text \<open>
  The test of line 76 of \<^verbatim>\<open>api.py\<close>: the lower-cased name ends in one of the
  supported suffixes.
\<close>

definition supported_name :: "string \<Rightarrow> bool" where
  "supported_name n = list_ex (py_endswith (py_lower n)) supported_formats"

text \<open>The statuses a response to a transcription request may carry.\<close>

definition result_states :: "StatusEnum set" where
  "result_states = {PENDING, SKIPPED, ERROR}"

section \<open>Example inputs\<close>

subsection \<open>Models\<close>

text \<open>
  A WhisperLive model whose two segments carry the numbers 7 and 9 of its own; the second
  segment has neither times nor surrounding white space. And a model whose constructor
  raises.
\<close>

definition demo_result :: pyval where
  "demo_result =
     PDict [(''segments'',
             PList [PDict [(''id'', PInt 7), (''start'', PFloat (Finite 0)),
                           (''end'', PFloat (Finite 2)), (''text'', PStr '' hello '')],
                    PDict [(''id'', PInt 9), (''text'', PStr ''world'')]]),
            (''text'', PStr ''hello world'')]"

definition demo_asr :: asr where
  "demo_asr =
     \<lparr>model_ctor = None, audio_ctor = None,
      load_audio_file = (\<lambda>p. Inr [Finite 1, Finite 2]), reset_state = None,
      inference = (\<lambda>x. Inr demo_result)\<rparr>"

definition load_error :: exn where
  "load_error = PyError ''RuntimeError'' ''CUDA out of memory''"

definition failing_asr :: asr where
  "failing_asr =
     \<lparr>model_ctor = Some load_error, audio_ctor = None,
      load_audio_file = (\<lambda>p. Inr [Finite 1, Finite 2]), reset_state = None,
      inference = (\<lambda>x. Inr demo_result)\<rparr>"

text \<open>
  A WhisperLive model whose one segment starts at a time that is not a number, and the
  transcript that \<^verbatim>\<open>process_audio\<close> makes of it.
\<close>

definition nan_result :: pyval where
  "nan_result =
     PDict [(''segments'',
             PList [PDict [(''start'', PFloat NaN), (''end'', PFloat (Finite 2)),
                           (''text'', PStr ''hello'')]]),
            (''text'', PStr ''hello'')]"

definition nan_asr :: asr where
  "nan_asr = demo_asr\<lparr>inference := (\<lambda>x. Inr nan_result)\<rparr>"

definition nan_transcript :: pydict where
  "nan_transcript =
     [(''segments'',
       PList [PDict [(''id'', PInt 0), (''start'', PFloat NaN), (''end'', PFloat (Finite 2)),
                     (''text'', PStr ''hello'')]]),
      (''language'', PStr ''ko''),
      (''text'', PStr ''hello'')]"

text \<open>A Faster-Whisper model that yields two segments.\<close>

definition demo_fw :: fw_capability where
  "demo_fw =
     \<lparr>fw_ctor = None,
      fw_transcribe = (\<lambda>p l b.
        Inr (Yield \<lparr>seg_start = Finite 0, seg_end = Finite 2, seg_text = '' hello'',
                    seg_words = None\<rparr>
              (Yield \<lparr>seg_start = Finite 2, seg_end = Finite 3, seg_text = '' world'',
                      seg_words = Some []\<rparr>
                Exhausted),
             \<lparr>info_language = ''en'', info_language_probability = Finite 1\<rparr>))\<rparr>"



text \<open>The transcripts the WhisperLive and the Faster-Whisper service make of their models.\<close>

definition demo_transcript :: pydict where
  "demo_transcript =
     [(''segments'',
       PList [PDict [(''id'', PInt 0), (''start'', PFloat (Finite 0)), (''end'', PFloat (Finite 2)),
                     (''text'', PStr ''hello'')],
              PDict [(''id'', PInt 1), (''start'', PInt 0), (''end'', PInt 0),
                     (''text'', PStr ''world'')]]),
      (''language'', PStr ''ko''),
      (''text'', PStr ''hello world'')]"

definition demo_fw_transcript :: pydict where
  "demo_fw_transcript =
     [(''segments'',
       PList [PDict [(''id'', PInt 0), (''start'', PFloat (Finite 0)), (''end'', PFloat (Finite 2)),
                     (''text'', PStr ''hello''), (''words'', PList [])],
              PDict [(''id'', PInt 1), (''start'', PFloat (Finite 2)), (''end'', PFloat (Finite 3)),
                     (''text'', PStr ''world''), (''words'', PList [])]]),
      (''language'', PStr ''en''),
      (''text'', PStr ''hello  world''),
      (''language_probability'', PFloat (Finite 1))]"

subsection \<open>Processes and deployments\<close>

text \<open>The globals of the two services before and after the model is loaded.\<close>

definition loaded_proc :: proc where
  "loaded_proc = initial_proc\<lparr>model := True, audio_processor := True\<rparr>"

definition fw_initial :: fw_proc where
  "fw_initial = \<lparr>fw_model = False, fw_transcription_results = Map.empty\<rparr>"

text \<open>
  A deployment with a transcript bucket, a storage whose calls all succeed, a storage
  whose uploads to the bucket fail, and a clock.
\<close>

definition demo_env :: environ where
  "demo_env = [''TRANSCRIPT_BUCKET'' \<mapsto> ''transcripts-bucket'']"

definition demo_storage :: storage where
  "demo_storage =
     \<lparr>storage_client = True,
      download = (\<lambda>b n. Inr ''/tmp/tmp1.wav''),
      upload_from_string = (\<lambda>b n doc. None),
      write_json = (\<lambda>p doc. None),
      path_exists = (\<lambda>p. True),
      os_remove = (\<lambda>p. None)\<rparr>"



definition demo_clock :: clock where
  "demo_clock = \<lparr>start_time = 10, end_time = 12\<rparr>"

text \<open>A store with the error result of one request and the success result of another.\<close>

definition demo_store :: results_store where
  "demo_store =
     [Some ''r1'' \<mapsto> error_result (Some ''r1'') load_error 2,
      Some ''r2'' \<mapsto> success_result (Some ''r2'') (PStr ''transcripts/upload_r2.json'') 2
                        (PDict demo_transcript)]"

subsection \<open>Requests\<close>

text \<open>
  Five Pub/Sub messages, as the \<^verbatim>\<open>data\<close> field carries them in base64: a
  request for a text file in a bucket,
  \<^verbatim>\<open>{"bucket": "audio-bucket", "name": "notes.TXT"}\<close>; a request for a text file
  with an empty bucket name, \<^verbatim>\<open>{"bucket": "", "name": "notes.txt"}\<close>; the text
  \<^verbatim>\<open>not json\<close>; the JSON list \<^verbatim>\<open>[]\<close>; and the empty JSON
  object \<^verbatim>\<open>{}\<close>.
\<close>

definition text_file_message :: string where
  "text_file_message = ''eyJidWNrZXQiOiAiYXVkaW8tYnVja2V0IiwgIm5hbWUiOiAibm90ZXMuVFhUIn0=''"

definition empty_bucket_message :: string where
  "empty_bucket_message = ''eyJidWNrZXQiOiAiIiwgIm5hbWUiOiAibm90ZXMudHh0In0=''"

definition not_json_message :: string where
  "not_json_message = ''bm90IGpzb24=''"

definition json_list_message :: string where
  "json_list_message = ''W10=''"

definition empty_object_message :: string where
  "empty_object_message = ''e30=''"

text \<open>
  What \<^verbatim>\<open>base64.b64decode\<close>, \<^verbatim>\<open>decode\<close> and \<^verbatim>\<open>json.loads\<close>
  make of these five messages. The examples use no other message; the decoder refuses
  any other as text that is not base64.
\<close>

definition demo_decode :: decoder where
  "demo_decode message_data =
     (if message_data = text_file_message then
        Inr (PDict [(''bucket'', PStr ''audio-bucket''), (''name'', PStr ''notes.TXT'')])
      else if message_data = empty_bucket_message then
        Inr (PDict [(''bucket'', PStr []), (''name'', PStr ''notes.txt'')])
      else if message_data = not_json_message then
        Inl (JSONDecodeError ''Expecting value: line 1 column 1 (char 0)'')
      else if message_data = json_list_message then Inr (PList [])
      else if message_data = empty_object_message then Inr (PDict [])
      else Inl (PyError ''binascii.Error'' ''Incorrect padding''))"

text \<open>An upload that can be stored, and one whose temporary file cannot be created.\<close>

definition demo_upload_io :: upload_io where
  "demo_upload_io =
     \<lparr>named_temporary_file = (\<lambda>suffix. Inr (''/tmp/tmpabc'' @ suffix)),
      read_upload = Inr ''RIFF'',
      write_file = (\<lambda>p c. None)\<rparr>"

definition failing_upload_io :: upload_io where
  "failing_upload_io =
     \<lparr>named_temporary_file = (\<lambda>suffix. Inl (PyError ''OSError'' ''No space left on device'')),
      read_upload = Inr ''RIFF'',
      write_file = (\<lambda>p c. None)\<rparr>"

subsection \<open>A stream and a registry\<close>

text \<open>
  A manager that counts its calls and answers every chunk of audio with one result
  frame, and a connection on which a chunk, an empty frame and a disconnect arrive.
\<close>

definition result_frame :: "string \<Rightarrow> nat \<Rightarrow> string \<Rightarrow> pyval" where
  "result_frame session_id n t =
     PDict [(''session_id'', PStr session_id), (''sequence'', PInt (int n)),
            (''is_final'', PBool False), (''text'', PStr t), (''segments'', PList []),
            (''language'', PNone)]"

definition demo_manager :: "nat manager" where
  "demo_manager =
     \<lparr>register = (\<lambda>m. (Inr ''session-1'', m)),
      manager_process_audio = (\<lambda>m sid d. (([result_frame sid m d], None), Suc m)),
      unregister = (\<lambda>m sid. (None, m))\<rparr>"

definition demo_connection :: connection where
  "demo_connection =
     \<lparr>accept = None, send_json = None,
      incoming = [Data ''abc'', Data [], Fails (WebSocketDisconnect [])]\<rparr>"

text \<open>A registry with one session.\<close>

definition demo_registry :: registry where
  "demo_registry = snd (registry_create ''session-1'' Map.empty)"

section \<open>Example runs\<close>

lemma demo_process_audio:
  "process_audio Map.empty demo_asr initial_proc ''a.wav'' = (Inr demo_transcript, loaded_proc)"
  by (simp add: process_audio_def load_model_def initial_proc_def demo_asr_def demo_result_def
      transcript_of_def segment_dict_def dict_get_def py_strip_def is_space_def LANGUAGE_def
      environ_get_def demo_transcript_def loaded_proc_def)

lemma demo_fw_process_audio:
  "fw_process_audio demo_fw fw_initial ''a.wav''
     = (Inr demo_fw_transcript, fw_initial\<lparr>fw_model := True\<rparr>)"
  by (simp add: fw_process_audio_def fw_load_model_def fw_initial_def demo_fw_def
      fw_transcript_of_def fw_segment_dict_def py_strip_def is_space_def demo_fw_transcript_def)









section \<open>Segment identifiers\<close>

lemma segment_dict_id:
  "segment_dict n x = Inr d \<Longrightarrow> segment_id d = Some (PInt (int n))"
  by (auto simp: segment_dict_def split: sum.splits pyval.splits)

text \<open>
  The invariant of the WhisperLive loop: when the running index is the length of the list
  built so far and every element of that list carries its position, so does every
  element of the final list.
\<close>

lemma segments_loop_ids:
  assumes "segments_loop acc (length acc) xs = Inr out"
    and "\<forall>i<length acc. segment_id (acc ! i) = Some (PInt (int i))"
  shows "\<forall>i<length out. segment_id (out ! i) = Some (PInt (int i))"
  using assms
proof (induction xs arbitrary: acc)
  case Nil
  then show ?case by simp
next
  case (Cons x xs)
  from Cons.prems(1) obtain d where d: "segment_dict (length acc) x = Inr d"
    and rest: "segments_loop (acc @ [d]) (length (acc @ [d])) xs = Inr out"
    by (auto split: sum.splits)
  have "\<forall>i<length (acc @ [d]). segment_id ((acc @ [d]) ! i) = Some (PInt (int i))"
    using Cons.prems(2) segment_dict_id[OF d] by (auto simp: nth_append less_Suc_eq)
  with Cons.IH[OF rest] show ?case by simp
qed

text \<open>The same invariant for the Faster-Whisper loop, by induction on the generator.\<close>

lemma fw_segments_loop_ids:
  assumes "fw_segments_loop acc ft g = Inr (out, ft')"
    and "\<forall>i<length acc. segment_id (acc ! i) = Some (PInt (int i))"
  shows "\<forall>i<length out. segment_id (out ! i) = Some (PInt (int i))"
  using assms
proof (induction g arbitrary: acc ft)
  case Exhausted
  then show ?case by simp
next
  case (Yield s g)
  let ?acc = "acc @ [fw_segment_dict (length acc) s]"
  have "\<forall>i<length ?acc. segment_id (?acc ! i) = Some (PInt (int i))"
    using Yield.prems(2) by (auto simp: nth_append less_Suc_eq fw_segment_dict_def)
  moreover have "fw_segments_loop ?acc (ft @ seg_text s @ '' '') g = Inr (out, ft')"
    using Yield.prems(1) by simp
  ultimately show ?case using Yield.IH by blast
next
  case (Raise e)
  then show ?case by simp
qed

lemma transcript_of_segments:
  assumes "transcript_of env result = Inr d"
  shows "\<exists>segs. transcript_segments d = Some segs
           \<and> (\<forall>i<length segs. segment_id (segs ! i) = Some (PInt (int i)))"
proof -
  from assms obtain xs segs t where "segments_loop [] 0 xs = Inr segs"
    and d: "d = [(''segments'', PList segs), (''language'', PStr (LANGUAGE env)), (''text'', t)]"
    by (auto simp: transcript_of_def split: sum.splits)
  then have "\<forall>i<length segs. segment_id (segs ! i) = Some (PInt (int i))"
    using segments_loop_ids[of "[]" xs segs] by simp
  with d show ?thesis by (simp add: transcript_segments_def)
qed

lemma process_audio_transcript:
  "process_audio env a st p = (Inr d, st') \<Longrightarrow> \<exists>result. transcript_of env result = Inr d"
  by (auto simp: process_audio_def split: prod.splits sum.splits if_splits option.splits)

lemma fw_transcript_of_segments:
  assumes "fw_transcript_of g info = Inr d"
  shows "\<exists>segs. transcript_segments d = Some segs
           \<and> (\<forall>i<length segs. segment_id (segs ! i) = Some (PInt (int i)))"
proof -
  from assms obtain segs ft where l: "fw_segments_loop [] [] g = Inr (segs, ft)"
    and d: "map_of d ''segments'' = Some (PList segs)"
    by (auto simp: fw_transcript_of_def split: sum.splits)
  have "\<forall>i<length segs. segment_id (segs ! i) = Some (PInt (int i))"
    using fw_segments_loop_ids[OF l] by simp
  with d show ?thesis by (simp add: transcript_segments_def)
qed

lemma fw_process_audio_transcript:
  "fw_process_audio m st p = (Inr d, st') \<Longrightarrow> \<exists>g info. fw_transcript_of g info = Inr d"
  by (auto simp: fw_process_audio_def split: prod.splits sum.splits if_splits option.splits)

text \<open>
  Claim C1. Whatever the model returns, when \<^verbatim>\<open>process_audio\<close> of the WhisperLive
  service or of the Faster-Whisper service returns a transcript, that transcript has a
  list of segments, and the segment at every index \<open>i\<close> of the list has \<open>i\<close> as its
  \<^verbatim>\<open>id\<close>: the identifiers are assigned by position, and a numbering of the
  model's own is not read.
\<close>

theorem segment_ids_by_position:
  "(process_audio env a st p = (Inr d, st') \<longrightarrow>
      (\<exists>segs. transcript_segments d = Some segs
         \<and> (\<forall>i<length segs. segment_id (segs ! i) = Some (PInt (int i)))))
   \<and> (fw_process_audio m fs p' = (Inr d', fs') \<longrightarrow>
      (\<exists>segs. transcript_segments d' = Some segs
         \<and> (\<forall>i<length segs. segment_id (segs ! i) = Some (PInt (int i)))))"
  using process_audio_transcript transcript_of_segments
    fw_process_audio_transcript fw_transcript_of_segments by blast

text \<open>
  The theorem at the two example models: the model of the first numbers its segments 7
  and 9, and both transcripts number them 0 and 1.
\<close>

theorem segment_ids_by_position_witness:
  "process_audio Map.empty demo_asr initial_proc ''a.wav'' = (Inr demo_transcript, loaded_proc)
   \<and> fw_process_audio demo_fw fw_initial ''a.wav''
     = (Inr demo_fw_transcript, fw_initial\<lparr>fw_model := True\<rparr>)
   \<and> (\<exists>segs. transcript_segments demo_transcript = Some segs \<and> length segs = 2
         \<and> segment_id (segs ! 0) = Some (PInt 0) \<and> segment_id (segs ! 1) = Some (PInt 1))
   \<and> (\<exists>segs. transcript_segments demo_fw_transcript = Some segs \<and> length segs = 2
         \<and> segment_id (segs ! 0) = Some (PInt 0) \<and> segment_id (segs ! 1) = Some (PInt 1))"
proof -
  note t = segment_ids_by_position[of Map.empty demo_asr initial_proc "''a.wav''" demo_transcript
      loaded_proc demo_fw fw_initial "''a.wav''" demo_fw_transcript
      "fw_initial\<lparr>fw_model := True\<rparr>"]
  from t demo_process_audio obtain segs where
    s: "transcript_segments demo_transcript = Some segs"
    "\<forall>i<length segs. segment_id (segs ! i) = Some (PInt (int i))" by blast
  from s(1) have l: "length segs = 2"
    by (auto simp: transcript_segments_def demo_transcript_def)
  from t demo_fw_process_audio obtain segs' where
    s': "transcript_segments demo_fw_transcript = Some segs'"
    "\<forall>i<length segs'. segment_id (segs' ! i) = Some (PInt (int i))" by blast
  from s'(1) have l': "length segs' = 2"
    by (auto simp: transcript_segments_def demo_fw_transcript_def)
  have "segment_id (segs ! 0) = Some (PInt (int 0))" "segment_id (segs ! 1) = Some (PInt (int 1))"
    using s(2) l by simp_all
  moreover have "segment_id (segs' ! 0) = Some (PInt (int 0))"
    "segment_id (segs' ! 1) = Some (PInt (int 1))"
    using s'(2) l' by simp_all
  ultimately show ?thesis
    using demo_process_audio demo_fw_process_audio s(1) s'(1) l l' by simp
qed

section \<open>The persisted transcript record\<close>
























section \<open>Unsupported formats\<close>

text \<open>
  The suffix of a path is empty or starts with its only dot, so it ends in one of the
  supported suffixes exactly when it is one of them: the test of
  \<^verbatim>\<open>upload_and_transcribe\<close> is a test of the extension.
\<close>

lemma rfind_Some:
  "rfind c xs = Some i \<Longrightarrow> \<exists>rest. drop i xs = c # rest \<and> c \<notin> set rest"
proof (induction xs arbitrary: i)
  case Nil
  then show ?case by simp
next
  case (Cons x xs)
  show ?case
  proof (cases "rfind c xs")
    case None
    with Cons.prems have "x = c" "i = 0" by (auto split: if_splits)
    moreover from None have "c \<notin> set xs"
      by (induction xs) (auto split: option.splits if_splits)
    ultimately show ?thesis by simp
  next
    case (Some j)
    with Cons.prems have "i = Suc j" by simp
    with Cons.IH[OF Some] show ?thesis by simp
  qed
qed

lemma path_suffix_shape:
  "path_suffix p = [] \<or> (\<exists>rest. path_suffix p = CHR ''.'' # rest \<and> CHR ''.'' \<notin> set rest)"
  by (auto simp: path_suffix_def Let_def split: option.splits dest: rfind_Some)

lemma lower_char_dot: "lower_char c = CHR ''.'' \<longleftrightarrow> c = CHR ''.''"
proof -
  have "lower_char c \<noteq> CHR ''.''" if n: "65 \<le> (of_char c :: nat)" "(of_char c :: nat) \<le> 90"
  proof
    assume "lower_char c = CHR ''.''"
    with n have "char_of (of_char c + 32 :: nat) = CHR ''.''" by (simp add: lower_char_def Let_def)
    then have "(of_char (char_of (of_char c + 32 :: nat)) :: nat) = of_char (CHR ''.'')" by simp
    with n show False by (simp add: of_char_of)
  qed
  then show ?thesis by (auto simp: lower_char_def Let_def)
qed

lemma endswith_dot_suffix:
  assumes "py_endswith (CHR ''.'' # rest) (CHR ''.'' # f)" and "CHR ''.'' \<notin> set rest"
  shows "rest = f"
proof -
  let ?k = "length (CHR ''.'' # rest) - length (CHR ''.'' # f)"
  from assms(1) have d: "drop ?k (CHR ''.'' # rest) = CHR ''.'' # f"
    by (simp add: py_endswith_def)
  show ?thesis
  proof (cases ?k)
    case 0
    with d show ?thesis by simp
  next
    case (Suc j)
    with d have "drop j rest = CHR ''.'' # f" by simp
    then have "CHR ''.'' \<in> set (drop j rest)" by simp
    then have "CHR ''.'' \<in> set rest" by (rule in_set_dropD)
    with assms(2) show ?thesis by simp
  qed
qed

lemma endswith_self: "py_endswith s s"
  by (simp add: py_endswith_def)

lemma suffix_supported_iff:
  "list_ex (py_endswith (py_lower (path_suffix p))) supported_formats
     \<longleftrightarrow> py_lower (path_suffix p) \<in> set supported_formats"
proof
  assume "py_lower (path_suffix p) \<in> set supported_formats"
  then show "list_ex (py_endswith (py_lower (path_suffix p))) supported_formats"
    unfolding list_ex_iff using endswith_self by blast
next
  assume a: "list_ex (py_endswith (py_lower (path_suffix p))) supported_formats"
  then obtain fmt where fmt: "fmt \<in> set supported_formats"
    "py_endswith (py_lower (path_suffix p)) fmt" unfolding list_ex_iff by blast
  from fmt(1) obtain f where f: "fmt = CHR ''.'' # f" by (auto simp: supported_formats_def)
  from path_suffix_shape[of p] show "py_lower (path_suffix p) \<in> set supported_formats"
  proof
    assume "path_suffix p = []"
    with fmt(2) f show ?thesis by (simp add: py_endswith_def py_lower_def)
  next
    assume "\<exists>rest. path_suffix p = CHR ''.'' # rest \<and> CHR ''.'' \<notin> set rest"
    then obtain rest where r: "path_suffix p = CHR ''.'' # rest" "CHR ''.'' \<notin> set rest"
      by blast
    have "lower_char (CHR ''.'') = CHR ''.''" by (simp add: lower_char_dot)
    with r(1) have l: "py_lower (path_suffix p) = CHR ''.'' # map lower_char rest"
      by (simp add: py_lower_def)
    have n: "CHR ''.'' \<notin> set (map lower_char rest)"
    proof
      assume "CHR ''.'' \<in> set (map lower_char rest)"
      then obtain c where "c \<in> set rest" "lower_char c = CHR ''.''" by auto
      with r(2) show False by (simp add: lower_char_dot)
    qed
    from fmt(2) have "py_endswith (CHR ''.'' # map lower_char rest) (CHR ''.'' # f)"
      unfolding l f .
    from endswith_dot_suffix[OF this n] have "map lower_char rest = f" .
    with l f fmt(1) show ?thesis by simp
  qed
qed


lemma make_request_name:
  "make_request b (PStr n) s = Inr request \<Longrightarrow> req_name request = n"
  by (auto simp: make_request_def split: option.splits)

lemma transcribe_audio_try_unsupported:
  assumes "decode message_data = Inr (PDict d)" and "map_of d ''name'' = Some (PStr n)"
    and "\<not> supported_name n"
  shows "transcribe_audio_try decode message_data rid
           = (case make_request (dict_get d ''bucket'' PNone) (PStr n)
                     (dict_get d ''session_id'' PNone) of
                Inl e \<Rightarrow> Inl e
              | Inr request \<Rightarrow>
                  if req_bucket request = [] \<or> n = []
                  then Inr (response ERROR msg_missing_bucket_or_name rid, [])
                  else Inr (response SKIPPED (msg_unsupported_format @ n) rid, []))"
proof (cases "make_request (dict_get d ''bucket'' PNone) (PStr n) (dict_get d ''session_id'' PNone)")
  case (Inl e)
  with assms show ?thesis
    by (simp add: transcribe_audio_try_def dict_get_def)
next
  case (Inr request)
  from make_request_name[OF Inr] have "req_name request = n" .
  with Inr assms show ?thesis
    by (simp add: transcribe_audio_try_def dict_get_def supported_name_def)
qed

lemma transcribe_audio_unsupported:
  assumes "decode message_data = Inr (PDict d)" and "map_of d ''name'' = Some (PStr n)"
    and "\<not> supported_name n"
  shows "snd (transcribe_audio decode message_data rid fid) = []"
    and "resp_status (fst (transcribe_audio decode message_data rid fid)) \<in> {SKIPPED, ERROR}"
    and "map_of d ''bucket'' = Some (PStr b) \<Longrightarrow> b \<noteq> [] \<Longrightarrow> n \<noteq> [] \<Longrightarrow>
         pydantic_opt_str (dict_get d ''session_id'' PNone) \<noteq> None \<Longrightarrow>
         transcribe_audio decode message_data rid fid
           = (response SKIPPED (msg_unsupported_format @ n) rid, [])"
proof -
  note t = transcribe_audio_try_unsupported[where decode = decode and message_data = message_data
      and rid = rid, OF assms]
  show "snd (transcribe_audio decode message_data rid fid) = []"
    by (auto simp: transcribe_audio_def t split: sum.splits exn.splits)
  show "resp_status (fst (transcribe_audio decode message_data rid fid)) \<in> {SKIPPED, ERROR}"
    by (auto simp: transcribe_audio_def t response_def split: sum.splits exn.splits)
  show "transcribe_audio decode message_data rid fid
           = (response SKIPPED (msg_unsupported_format @ n) rid, [])"
    if "map_of d ''bucket'' = Some (PStr b)" "b \<noteq> []" "n \<noteq> []"
      "pydantic_opt_str (dict_get d ''session_id'' PNone) \<noteq> None"
    using that
    by (auto simp: transcribe_audio_def t make_request_def dict_get_def split: option.splits)
qed

text \<open>
  The bucket and the name are checked before the format: a request that fails the
  validation of \<^verbatim>\<open>AudioProcessingRequest\<close>, or whose bucket or name is empty,
  is answered with status \<^verbatim>\<open>error\<close> whatever its format.
\<close>

lemma make_request_bucket:
  "make_request bv (PStr n) s = Inr request \<Longrightarrow> bv = PStr (req_bucket request)"
  by (cases bv) (auto simp: make_request_def split: option.splits)

lemma make_request_refused:
  "make_request bv (PStr n) s = Inl e \<Longrightarrow>
     e = ValidationError ''validation error for AudioProcessingRequest''
     \<and> ((\<forall>b. bv \<noteq> PStr b) \<or> pydantic_opt_str s = None)"
  by (cases bv) (auto simp: make_request_def split: option.splits)

lemma transcribe_audio_unsupported_error:
  assumes "decode message_data = Inr (PDict d)" and "map_of d ''name'' = Some (PStr n)"
    and "\<not> supported_name n"
    and "(\<forall>b. map_of d ''bucket'' = Some (PStr b) \<longrightarrow> b = []) \<or> n = []
           \<or> pydantic_opt_str (dict_get d ''session_id'' PNone) = None"
  shows "resp_status (fst (transcribe_audio decode message_data rid fid)) = ERROR"
proof -
  note t = transcribe_audio_try_unsupported[where decode = decode and message_data = message_data
      and rid = rid, OF assms(1,2,3)]
  show ?thesis
  proof (cases "make_request (dict_get d ''bucket'' PNone) (PStr n)
                  (dict_get d ''session_id'' PNone)")
    case (Inl e)
    from make_request_refused[OF Inl]
    have "e = ValidationError ''validation error for AudioProcessingRequest''" by simp
    with Inl show ?thesis
      by (simp add: transcribe_audio_def t ValidationError_def response_def)
  next
    case (Inr request)
    from make_request_bucket[OF Inr]
    have b: "dict_get d ''bucket'' PNone = PStr (req_bucket request)" .
    then have m: "map_of d ''bucket'' = Some (PStr (req_bucket request))"
      by (auto simp: dict_get_def split: option.splits)
    from Inr have s: "pydantic_opt_str (dict_get d ''session_id'' PNone) \<noteq> None"
      by (auto simp: make_request_def split: option.splits)
    from assms(4) m s have "req_bucket request = [] \<or> n = []" by auto
    with Inr show ?thesis
      by (auto simp: transcribe_audio_def t response_def)
  qed
qed

lemma upload_unsupported:
  assumes "py_lower (path_suffix filename) \<notin> set supported_formats"
  shows "upload_and_transcribe io filename lang bs rid fid
           = (response SKIPPED (msg_unsupported_format @ filename) rid, [])"
  using assms suffix_supported_iff[of filename]
  by (simp add: upload_and_transcribe_def upload_and_transcribe_try_def Let_def)

text \<open>
  The two handlers do not test the same thing. \<^verbatim>\<open>transcribe_audio\<close> tests the
  end of the whole lower-cased name, \<^verbatim>\<open>upload_and_transcribe\<close> the extension
  that \<^verbatim>\<open>Path(file.filename).suffix\<close> gives. They differ on a name such as
  \<^verbatim>\<open>a.mp3/\<close>, whose extension is \<^verbatim>\<open>.mp3\<close> and which ends in a slash:
  the upload is enqueued.
\<close>

lemma upload_tests_the_extension:
  "\<not> supported_name ''a.mp3/''
   \<and> py_lower (path_suffix ''a.mp3/'') = ''.mp3''
   \<and> upload_and_transcribe demo_upload_io ''a.mp3/'' None 5 ''r1'' ''r2''
       = (response PENDING msg_processing_started ''r1'',
          [ProcessUploadedFile ''/tmp/tmpabc.mp3'' ''r1'' None 5])"
  by code_simp

text \<open>
  Claim C3, as amended. No background task is enqueued for a Pub/Sub request whose
  lower-cased file name ends in none of \<^verbatim>\<open>.mp3 .wav .m4a .flac .ogg .aac\<close>, nor
  for an upload whose lower-cased extension (\<^verbatim>\<open>Path(filename).suffix\<close>) is none
  of the six. The Pub/Sub handler \<^verbatim>\<open>transcribe_audio\<close> (the same text in the
  WhisperLive and the WhisperX service) checks the bucket and the name before the
  format: it answers such a request with status \<^verbatim>\<open>skipped\<close>, its name and the
  request id when the message holds a bucket and a name that are strings and not empty
  and a session id that is a string or absent, and with status \<^verbatim>\<open>error\<close>
  otherwise. The upload handler answers such an upload with status
  \<^verbatim>\<open>skipped\<close>.
\<close>

theorem unsupported_format_is_not_enqueued:
  "(decode message_data = Inr (PDict d) \<and> map_of d ''name'' = Some (PStr n)
      \<and> \<not> supported_name n \<longrightarrow>
        snd (transcribe_audio decode message_data rid fid) = []
        \<and> resp_status (fst (transcribe_audio decode message_data rid fid)) \<in> {SKIPPED, ERROR}
        \<and> (map_of d ''bucket'' = Some (PStr b) \<and> b \<noteq> [] \<and> n \<noteq> []
             \<and> pydantic_opt_str (dict_get d ''session_id'' PNone) \<noteq> None \<longrightarrow>
               transcribe_audio decode message_data rid fid
                 = (response SKIPPED (msg_unsupported_format @ n) rid, []))
        \<and> ((\<forall>b'. map_of d ''bucket'' = Some (PStr b') \<longrightarrow> b' = []) \<or> n = []
             \<or> pydantic_opt_str (dict_get d ''session_id'' PNone) = None \<longrightarrow>
               resp_status (fst (transcribe_audio decode message_data rid fid)) = ERROR))
   \<and> (py_lower (path_suffix filename) \<notin> set supported_formats \<longrightarrow>
        upload_and_transcribe io filename lang bs rid fid
          = (response SKIPPED (msg_unsupported_format @ filename) rid, []))"
proof (intro conjI impI)
  assume a: "decode message_data = Inr (PDict d) \<and> map_of d ''name'' = Some (PStr n)
      \<and> \<not> supported_name n"
  then have a1: "decode message_data = Inr (PDict d)" and a2: "map_of d ''name'' = Some (PStr n)"
    and a3: "\<not> supported_name n" by simp_all
  show "snd (transcribe_audio decode message_data rid fid) = []"
    using a1 a2 a3 by (rule transcribe_audio_unsupported(1))
  show "resp_status (fst (transcribe_audio decode message_data rid fid)) \<in> {SKIPPED, ERROR}"
    using a1 a2 a3 by (rule transcribe_audio_unsupported(2))
  assume "map_of d ''bucket'' = Some (PStr b) \<and> b \<noteq> [] \<and> n \<noteq> []
             \<and> pydantic_opt_str (dict_get d ''session_id'' PNone) \<noteq> None"
  then show "transcribe_audio decode message_data rid fid
                 = (response SKIPPED (msg_unsupported_format @ n) rid, [])"
    using transcribe_audio_unsupported(3)[where decode = decode and message_data = message_data
        and d = d and n = n and b = b and rid = rid and fid = fid] a1 a2 a3 by blast
next
  assume "decode message_data = Inr (PDict d) \<and> map_of d ''name'' = Some (PStr n)
      \<and> \<not> supported_name n"
  then have a1: "decode message_data = Inr (PDict d)" and a2: "map_of d ''name'' = Some (PStr n)"
    and a3: "\<not> supported_name n" by simp_all
  assume "(\<forall>b'. map_of d ''bucket'' = Some (PStr b') \<longrightarrow> b' = []) \<or> n = []
             \<or> pydantic_opt_str (dict_get d ''session_id'' PNone) = None"
  with a1 a2 a3
  show "resp_status (fst (transcribe_audio decode message_data rid fid)) = ERROR"
    by (rule transcribe_audio_unsupported_error)
next
  assume "py_lower (path_suffix filename) \<notin> set supported_formats"
  then show "upload_and_transcribe io filename lang bs rid fid
          = (response SKIPPED (msg_unsupported_format @ filename) rid, [])"
    by (rule upload_unsupported)
qed

lemma notes_TXT_unsupported: "\<not> supported_name ''notes.TXT''"
  by code_simp

lemma slides_PDF_unsupported: "py_lower (path_suffix ''slides.PDF'') \<notin> set supported_formats"
  by code_simp

lemma demo_decode_text_file:
  "demo_decode text_file_message
     = Inr (PDict [(''bucket'', PStr ''audio-bucket''), (''name'', PStr ''notes.TXT'')])"
  by (simp add: demo_decode_def)

text \<open>
  The theorem at the message that asks for a text file in a bucket and at an uploaded
  PDF: both are skipped, and nothing is enqueued.
\<close>

theorem unsupported_format_is_not_enqueued_witness:
  "transcribe_audio demo_decode text_file_message ''r1'' ''r2''
     = (response SKIPPED (msg_unsupported_format @ ''notes.TXT'') ''r1'', [])
   \<and> upload_and_transcribe demo_upload_io ''slides.PDF'' None 5 ''r1'' ''r2''
     = (response SKIPPED (msg_unsupported_format @ ''slides.PDF'') ''r1'', [])"
proof -
  note t = unsupported_format_is_not_enqueued[of demo_decode text_file_message
      "[(''bucket'', PStr ''audio-bucket''), (''name'', PStr ''notes.TXT'')]" "''notes.TXT''"
      "''r1''" "''r2''" "''audio-bucket''" "''slides.PDF''" demo_upload_io None 5]
  from t[THEN conjunct1] demo_decode_text_file notes_TXT_unsupported
  have "transcribe_audio demo_decode text_file_message ''r1'' ''r2''
     = (response SKIPPED (msg_unsupported_format @ ''notes.TXT'') ''r1'', [])"
    by (simp add: dict_get_def)
  moreover from t[THEN conjunct2] slides_PDF_unsupported
  have "upload_and_transcribe demo_upload_io ''slides.PDF'' None 5 ''r1'' ''r2''
     = (response SKIPPED (msg_unsupported_format @ ''slides.PDF'') ''r1'', [])"
    by blast
  ultimately show ?thesis by blast
qed

text \<open>
  Claim C3 as stated fails: the request for \<^verbatim>\<open>notes.txt\<close> with an empty bucket
  name is answered with status \<^verbatim>\<open>error\<close>, not \<^verbatim>\<open>skipped\<close> (and nothing
  is enqueued).
\<close>

theorem empty_bucket_counterexample:
  "\<not> supported_name ''notes.txt''
   \<and> py_lower (path_suffix ''notes.txt'') = ''.txt''
   \<and> demo_decode empty_bucket_message
       = Inr (PDict [(''bucket'', PStr []), (''name'', PStr ''notes.txt'')])
   \<and> resp_status (fst (transcribe_audio demo_decode empty_bucket_message ''r1'' ''r2''))
       = ERROR
   \<and> snd (transcribe_audio demo_decode empty_bucket_message ''r1'' ''r2'') = []"
  by code_simp
section \<open>Exceptions and responses\<close>

lemma transcribe_audio_try_status:
  "transcribe_audio_try decode message_data rid = Inr (r, tasks) \<Longrightarrow>
     resp_status r \<in> result_states \<and> resp_request_id r = Some rid"
  by (auto simp: transcribe_audio_try_def response_def result_states_def
      split: sum.splits if_splits)

lemma transcribe_audio_raised:
  assumes "transcribe_audio_try decode message_data rid = Inl e"
  shows "\<exists>r. transcribe_audio decode message_data rid fid = (r, [])
           \<and> resp_status r = ERROR \<and> resp_request_id r = Some fid
           \<and> (resp_message r = msg_bad_message_format \<and> resp_error_details r = None
              \<or> resp_message r = msg_internal_server_error
                \<and> resp_error_details r = Some (str_exn e))"
  using assms by (cases e) (simp_all add: transcribe_audio_def response_def)

lemma transcribe_audio_status:
  "resp_status (fst (transcribe_audio decode message_data rid fid)) \<in> result_states"
proof (cases "transcribe_audio_try decode message_data rid")
  case (Inl e)
  from transcribe_audio_raised[OF this, of fid] show ?thesis
    by (auto simp: result_states_def)
next
  case (Inr x)
  then show ?thesis
    using transcribe_audio_try_status[of decode message_data rid "fst x" "snd x"]
    by (simp add: transcribe_audio_def)
qed

lemma upload_and_transcribe_try_status:
  "upload_and_transcribe_try io filename lang bs rid = Inr (r, tasks) \<Longrightarrow>
     resp_status r \<in> result_states \<and> resp_request_id r = Some rid"
  by (auto simp: upload_and_transcribe_try_def response_def result_states_def Let_def
      split: sum.splits if_splits option.splits)

lemma upload_and_transcribe_raised:
  assumes "upload_and_transcribe_try io filename lang bs rid = Inl e"
  shows "\<exists>r. upload_and_transcribe io filename lang bs rid fid = (r, [])
           \<and> resp_status r = ERROR \<and> resp_request_id r = Some fid
           \<and> resp_message r = msg_internal_server_error
           \<and> resp_error_details r = Some (str_exn e)"
  using assms by (simp add: upload_and_transcribe_def response_def)

lemma upload_and_transcribe_status:
  "resp_status (fst (upload_and_transcribe io filename lang bs rid fid)) \<in> result_states"
proof (cases "upload_and_transcribe_try io filename lang bs rid")
  case (Inl e)
  from upload_and_transcribe_raised[OF this, of fid] show ?thesis
    by (auto simp: result_states_def)
next
  case (Inr x)
  then show ?thesis
    using upload_and_transcribe_try_status[of io filename lang bs rid "fst x" "snd x"]
    by (simp add: upload_and_transcribe_def)
qed

lemma answer_exception:
  "answer (Inl e) =
     (case e of
        HTTPException code detail \<Rightarrow> (code, PDict [(''detail'', PStr detail)])
      | _ \<Rightarrow> (500, PDict [(''status'', PStr ''error''), (''message'', PStr msg_unhandled)]))"
  by (cases e) (simp_all add: answer_def global_exception_handler_def)

lemma post_transcribe_body:
  "\<exists>code body. fst (post_transcribe decode h message_data rid fid) = (code, PDict body)
     \<and> (code = 202 \<or> code = 401)"
  by (cases h; cases "transcribe_audio decode message_data rid fid")
    (simp_all add: post_transcribe_def verify_pubsub_token_def answer_def response_json_def)

text \<open>
  Claim C4. The handlers of a transcription request never raise: for every input
  \<^verbatim>\<open>transcribe_audio\<close> and \<^verbatim>\<open>upload_and_transcribe\<close> return a response
  whose status is \<^verbatim>\<open>pending\<close>, \<^verbatim>\<open>skipped\<close> or \<^verbatim>\<open>error\<close>, and
  whenever an exception is raised inside their \<^verbatim>\<open>try\<close> block the response has
  status \<^verbatim>\<open>error\<close>, a fresh request id, a fixed message and, as
  \<^verbatim>\<open>error_details\<close>, nothing or the text of the exception; no task is enqueued.
  The handler registered for \<^verbatim>\<open>Exception\<close> turns every exception into the
  status code 500 and a JSON body with a status and a fixed message, so that what a
  caller is answered for an exception that leaves a route is always a JSON body: the
  detail of an \<^verbatim>\<open>HTTPException\<close>, or that body. The route
  \<^verbatim>\<open>POST /api/v1/transcribe\<close> as a whole answers with a JSON object and the
  status 202, or 401 when the subscription header is missing.
\<close>

theorem exceptions_become_responses:
  "resp_status (fst (transcribe_audio decode message_data rid fid)) \<in> result_states
   \<and> resp_status (fst (upload_and_transcribe io filename lang bs rid fid)) \<in> result_states
   \<and> (transcribe_audio_try decode message_data rid = Inl e \<longrightarrow>
        (\<exists>r. transcribe_audio decode message_data rid fid = (r, [])
           \<and> resp_status r = ERROR \<and> resp_request_id r = Some fid
           \<and> (resp_message r = msg_bad_message_format \<and> resp_error_details r = None
              \<or> resp_message r = msg_internal_server_error
                \<and> resp_error_details r = Some (str_exn e))))
   \<and> (upload_and_transcribe_try io filename lang bs rid = Inl e' \<longrightarrow>
        (\<exists>r. upload_and_transcribe io filename lang bs rid fid = (r, [])
           \<and> resp_status r = ERROR \<and> resp_request_id r = Some fid
           \<and> resp_message r = msg_internal_server_error
           \<and> resp_error_details r = Some (str_exn e')))
   \<and> global_exception_handler exc
        = (500, PDict [(''status'', PStr ''error''), (''message'', PStr msg_unhandled)])
   \<and> answer (Inl exc) =
        (case exc of
           HTTPException code detail \<Rightarrow> (code, PDict [(''detail'', PStr detail)])
         | _ \<Rightarrow> (500, PDict [(''status'', PStr ''error''), (''message'', PStr msg_unhandled)]))
   \<and> (\<exists>code body. fst (post_transcribe decode h message_data rid fid) = (code, PDict body)
         \<and> (code = 202 \<or> code = 401))"
  using transcribe_audio_status upload_and_transcribe_status transcribe_audio_raised
    upload_and_transcribe_raised answer_exception post_transcribe_body
  by (simp add: global_exception_handler_def)

text \<open>
  The theorem at a message whose text is not JSON and at an upload whose temporary file
  cannot be created.
\<close>

theorem exceptions_become_responses_witness:
  "transcribe_audio_try demo_decode not_json_message ''r1''
     = Inl (JSONDecodeError ''Expecting value: line 1 column 1 (char 0)'')
   \<and> transcribe_audio demo_decode not_json_message ''r1'' ''r2''
     = (response ERROR msg_bad_message_format ''r2'', [])
   \<and> upload_and_transcribe_try failing_upload_io ''talk.mp3'' None 5 ''r1''
     = Inl (PyError ''OSError'' ''No space left on device'')
   \<and> (\<exists>r. upload_and_transcribe failing_upload_io ''talk.mp3'' None 5 ''r1'' ''r2'' = (r, [])
         \<and> resp_status r = ERROR \<and> resp_request_id r = Some ''r2''
         \<and> resp_error_details r = Some ''No space left on device'')
   \<and> answer (Inl (PyError ''KeyError'' ''k''))
     = (500, PDict [(''status'', PStr ''error''), (''message'', PStr msg_unhandled)])"
proof -
  note t = exceptions_become_responses[of demo_decode not_json_message "''r1''" "''r2''"
      failing_upload_io "''talk.mp3''" None 5
      "JSONDecodeError ''Expecting value: line 1 column 1 (char 0)''"
      "PyError ''OSError'' ''No space left on device''" "PyError ''KeyError'' ''k''"]
  have h1: "transcribe_audio_try demo_decode not_json_message ''r1''
     = Inl (JSONDecodeError ''Expecting value: line 1 column 1 (char 0)'')"
    by (simp add: transcribe_audio_try_def demo_decode_def not_json_message_def
        text_file_message_def empty_bucket_message_def)
  have h2: "upload_and_transcribe_try failing_upload_io ''talk.mp3'' None 5 ''r1''
     = Inl (PyError ''OSError'' ''No space left on device'')"
    by code_simp
  have e1: "transcribe_audio demo_decode not_json_message ''r1'' ''r2''
     = (response ERROR msg_bad_message_format ''r2'', [])"
    by (simp add: transcribe_audio_def h1)
  from t h2 have e2: "\<exists>r. upload_and_transcribe failing_upload_io ''talk.mp3'' None 5 ''r1'' ''r2''
         = (r, [])
         \<and> resp_status r = ERROR \<and> resp_request_id r = Some ''r2''
         \<and> resp_error_details r = Some ''No space left on device''"
    by auto
  from t have e3: "answer (Inl (PyError ''KeyError'' ''k''))
     = (500, PDict [(''status'', PStr ''error''), (''message'', PStr msg_unhandled)])"
    by simp
  from h1 h2 e1 e2 e3 show ?thesis by blast
qed

section \<open>The health endpoint and a model that does not load\<close>

text \<open>
  The import of the module calls \<^verbatim>\<open>load_model\<close> and swallows what it raises.
  The call fails when the constructor of the model raises, or when the model is
  constructed and the constructor of the audio processor raises.
\<close>

lemma load_model_fails_iff:
  "fst (load_model a initial_proc) = Inl e
     \<longleftrightarrow> model_ctor a = Some e \<or> (model_ctor a = None \<and> audio_ctor a = Some e)"
  by (auto simp: load_model_def initial_proc_def Let_def split: option.splits)

lemma startup_state:
  "startup a =
     (case model_ctor a of
        Some e \<Rightarrow> initial_proc
      | None \<Rightarrow>
          (case audio_ctor a of
             Some e \<Rightarrow> initial_proc\<lparr>model := True\<rparr>
           | None \<Rightarrow> initial_proc\<lparr>model := True, audio_processor := True\<rparr>))"
  by (simp add: startup_def load_model_def initial_proc_def Let_def split: option.splits)

lemma startup_after_failure:
  assumes "fst (load_model a initial_proc) = Inl e"
  shows "\<not> audio_processor (startup a)"
    and "model (startup a) \<longleftrightarrow> model_ctor a = None"
    and "transcription_results (startup a) = Map.empty"
  using assms load_model_fails_iff[of a e]
  by (auto simp: startup_state initial_proc_def split: option.splits)

text \<open>
  Claim C5, as amended. When the model fails to initialise at import, the failure is
  caught and the process runs on with the globals as the failed call left them: no audio
  processor, a model only if it was the audio processor whose constructor raised, and an
  empty store of results. The failure is not surfaced by the health endpoint, which
  reads the environment only: in such a state, as in every other, it reports the status
  \<^verbatim>\<open>healthy\<close>, with the API version and the \<^verbatim>\<open>ENVIRONMENT\<close> variable
  (\<^verbatim>\<open>development\<close> when it is not set).
\<close>

theorem health_ignores_model:
  "health_check env =
     \<lparr>health_status = ''healthy'', health_version = API_VERSION,
      health_environment = Some (environ_get env ''ENVIRONMENT'' ''development'')\<rparr>
   \<and> (fst (load_model a initial_proc) = Inl e \<longrightarrow>
        \<not> audio_processor (startup a)
        \<and> (model (startup a) \<longleftrightarrow> model_ctor a = None)
        \<and> transcription_results (startup a) = Map.empty
        \<and> health_status (health_check env) = ''healthy'')"
proof (intro conjI impI)
  show "health_check env =
     \<lparr>health_status = ''healthy'', health_version = API_VERSION,
      health_environment = Some (environ_get env ''ENVIRONMENT'' ''development'')\<rparr>"
    by (simp add: health_check_def)
next
  assume f: "fst (load_model a initial_proc) = Inl e"
  from startup_after_failure(1)[OF f] show "\<not> audio_processor (startup a)" .
  from startup_after_failure(2)[OF f] show "model (startup a) \<longleftrightarrow> model_ctor a = None" .
  from startup_after_failure(3)[OF f] show "transcription_results (startup a) = Map.empty" .
  show "health_status (health_check env) = ''healthy''" by (simp add: health_check_def)
qed

text \<open>
  The theorem at a model that is constructed and whose audio processor runs out of
  memory, in a deployment that sets no \<^verbatim>\<open>ENVIRONMENT\<close>.
\<close>

theorem health_ignores_model_witness:
  "fst (load_model (demo_asr\<lparr>audio_ctor := Some load_error\<rparr>) initial_proc) = Inl load_error
   \<and> model (startup (demo_asr\<lparr>audio_ctor := Some load_error\<rparr>))
   \<and> \<not> audio_processor (startup (demo_asr\<lparr>audio_ctor := Some load_error\<rparr>))
   \<and> health_check demo_env =
       \<lparr>health_status = ''healthy'', health_version = ''v1'',
        health_environment = Some ''development''\<rparr>"
proof -
  have h: "fst (load_model (demo_asr\<lparr>audio_ctor := Some load_error\<rparr>) initial_proc)
      = Inl load_error"
    by (simp add: load_model_def initial_proc_def demo_asr_def Let_def)
  have c: "model_ctor (demo_asr\<lparr>audio_ctor := Some load_error\<rparr>) = None"
    by (simp add: demo_asr_def)
  note t = health_ignores_model[where env = demo_env
      and a = "demo_asr\<lparr>audio_ctor := Some load_error\<rparr>" and e = load_error]
  from t h c have "model (startup (demo_asr\<lparr>audio_ctor := Some load_error\<rparr>))" by blast
  moreover from t h
  have "\<not> audio_processor (startup (demo_asr\<lparr>audio_ctor := Some load_error\<rparr>))" by blast
  moreover from t have "health_check demo_env =
       \<lparr>health_status = ''healthy'', health_version = ''v1'',
        health_environment = Some ''development''\<rparr>"
    by (simp add: API_VERSION_def environ_get_def demo_env_def)
  ultimately show ?thesis using h by blast
qed

text \<open>
  Claim C5 as stated fails: after a start-up at which the model did not load, the health
  endpoint reports \<^verbatim>\<open>healthy\<close>.
\<close>

theorem healthy_without_model_counterexample:
  "\<not> model (startup failing_asr) \<and> \<not> audio_processor (startup failing_asr)
   \<and> health_status (health_check Map.empty) = ''healthy''"
  by (simp add: startup_def load_model_def initial_proc_def failing_asr_def health_check_def)
section \<open>The first frame of a stream\<close>

lemma websocket_endpoint_frames:
  "fst (websocket_endpoint mgr conn m) =
     (case accept conn of
        Some e \<Rightarrow> []
      | None \<Rightarrow>
          (case register mgr m of
             (Inl e, m1) \<Rightarrow> []
           | (Inr session_id, m1) \<Rightarrow>
               (case send_json conn of
                  Some e \<Rightarrow> []
                | None \<Rightarrow>
                    connected_frame session_id
                      # fst (receive_loop mgr session_id (incoming conn) m1))))"
  by (simp add: websocket_endpoint_def split: option.splits prod.splits sum.splits)

text \<open>
  Claim C6. On a connection that is accepted, on which a session is registered and the
  first \<^verbatim>\<open>send_json\<close> succeeds, the frames the endpoint sends start with
  \<^verbatim>\<open>{"event": "connected", "session_id": id}\<close> for the identifier registered, and
  every frame sent while audio is processed comes after it. On every connection the
  frames sent are none at all or start with that frame.
\<close>

theorem connected_frame_first:
  "(accept conn = None \<and> register mgr m = (Inr session_id, m1) \<and> send_json conn = None \<longrightarrow>
      fst (websocket_endpoint mgr conn m)
        = connected_frame session_id # fst (receive_loop mgr session_id (incoming conn) m1)
      \<and> connected_frame session_id
           = PDict [(''event'', PStr ''connected''), (''session_id'', PStr session_id)])
   \<and> (fst (websocket_endpoint mgr conn m) = []
       \<or> (\<exists>sid m' rest. register mgr m = (Inr sid, m')
             \<and> fst (websocket_endpoint mgr conn m) = connected_frame sid # rest))"
  by (auto simp: websocket_endpoint_frames connected_frame_def
      split: option.splits prod.splits sum.splits)

text \<open>
  The theorem at the example connection: the connected frame, then the result frame of
  the one chunk of audio.
\<close>

theorem connected_frame_first_witness:
  "accept demo_connection = None \<and> register demo_manager 0 = (Inr ''session-1'', 0)
   \<and> send_json demo_connection = None
   \<and> websocket_endpoint demo_manager demo_connection 0
     = ([PDict [(''event'', PStr ''connected''), (''session_id'', PStr ''session-1'')],
         result_frame ''session-1'' 0 ''abc''], 1, True)"
proof -
  have h: "accept demo_connection = None \<and> register demo_manager 0 = (Inr ''session-1'', 0)
      \<and> send_json demo_connection = None"
    by (simp add: demo_connection_def demo_manager_def)
  have l: "receive_loop demo_manager ''session-1'' (incoming demo_connection) 0
      = ([result_frame ''session-1'' 0 ''abc''], 1, Some (WebSocketDisconnect []))"
    by (simp add: demo_connection_def demo_manager_def)
  from connected_frame_first[of demo_connection demo_manager 0 "''session-1''" 0] h l
  have "fst (websocket_endpoint demo_manager demo_connection 0)
      = [PDict [(''event'', PStr ''connected''), (''session_id'', PStr ''session-1'')],
         result_frame ''session-1'' 0 ''abc'']"
    by simp
  moreover have "snd (websocket_endpoint demo_manager demo_connection 0) = (1, True)"
    using h l by (simp add: websocket_endpoint_def ws_finally_def demo_manager_def)
  ultimately show ?thesis using h by (simp add: prod_eq_iff)
qed

section \<open>Removing a session twice\<close>

lemma registry_remove_eq: "registry_remove i r = (Inr (), r(i := None))"
  by (cases "r i") (auto simp: registry_remove_def)

text \<open>
  Claim C7. Removing an identifier never raises; removing it a second time returns what
  the first removal returned and leaves the registry as the first removal left it, so
  that every later lookup answers the same; and removing an identifier that is not in
  the registry leaves the registry as it was.
\<close>

theorem registry_remove_idempotent:
  "fst (registry_remove i r) = Inr ()
   \<and> registry_remove i (snd (registry_remove i r)) = registry_remove i r
   \<and> registry_get j (snd (registry_remove i (snd (registry_remove i r))))
       = registry_get j (snd (registry_remove i r))
   \<and> registry_get i (snd (registry_remove i r)) = None
   \<and> (registry_get i r = None \<longrightarrow> registry_remove i r = (Inr (), r))"
  by (auto simp: registry_remove_eq registry_get_def fun_upd_idem_iff)

text \<open>
  The theorem at the example registry: removing an unknown identifier changes nothing,
  and removing the session once or twice leaves the empty registry.
\<close>

theorem registry_remove_idempotent_witness:
  "registry_get ''session-2'' demo_registry = None
   \<and> registry_remove ''session-2'' demo_registry = (Inr (), demo_registry)
   \<and> registry_get ''session-1'' demo_registry \<noteq> None
   \<and> registry_remove ''session-1'' (snd (registry_remove ''session-1'' demo_registry))
       = (Inr (), Map.empty)"
proof -
  have g: "registry_get ''session-2'' demo_registry = None"
    by (simp add: registry_get_def demo_registry_def registry_create_def Let_def)
  have "registry_remove ''session-1'' demo_registry = (Inr (), Map.empty)"
    by (simp add: registry_remove_eq demo_registry_def registry_create_def Let_def)
  with registry_remove_idempotent[of "''session-1''" demo_registry]
  have "registry_remove ''session-1'' (snd (registry_remove ''session-1'' demo_registry))
       = (Inr (), Map.empty)" by simp
  moreover from registry_remove_idempotent[of "''session-2''" demo_registry] g
  have "registry_remove ''session-2'' demo_registry = (Inr (), demo_registry)" by blast
  moreover have "registry_get ''session-1'' demo_registry \<noteq> None"
    by (simp add: registry_get_def demo_registry_def registry_create_def Let_def)
  ultimately show ?thesis using g by blast
qed

section \<open>Looking a result up\<close>

lemma get_result_missing:
  "(\<exists>detail. get_transcription_result store rid = Inl (HTTPException 404 detail))
     \<longleftrightarrow> store (Some rid) = None"
  by (auto simp: get_transcription_result_def JSONResponse_def ValueError_def
      split: option.splits if_splits)

lemma get_result_code:
  "fst (answer (get_transcription_result store rid)) = 404 \<longleftrightarrow> store (Some rid) = None"
  by (auto simp: get_transcription_result_def JSONResponse_def ValueError_def answer_def
      global_exception_handler_def split: option.splits if_splits)

text \<open>
  A result with status \<^verbatim>\<open>error\<close>. The body carries the stored message and
  details; the response can be built when neither holds a float that JSON does not have,
  as is the case for every error result the background tasks store.
\<close>

lemma get_result_error:
  assumes "store (Some rid) = Some result" and "result_status result = PStr ''error''"
    and "json_compliant (dict_get result ''message'' (PStr msg_error_during_processing))"
    and "json_compliant (dict_get result ''error_details'' PNone)"
  shows "get_transcription_result store rid =
           Inr (500,
                PDict [(''status'', PStr ''error''),
                       (''message'', dict_get result ''message'' (PStr msg_error_during_processing)),
                       (''request_id'', PStr rid),
                       (''error_details'', dict_get result ''error_details'' PNone)])"
  using assms by (simp add: get_transcription_result_def result_status_def JSONResponse_def)

lemma get_result_error_stored:
  assumes "store (Some rid) = Some (error_result request_id e t)"
  shows "get_transcription_result store rid =
           Inr (500,
                PDict [(''status'', PStr ''error''), (''message'', PStr msg_audio_error),
                       (''request_id'', PStr rid), (''error_details'', PStr (str_exn e))])"
  using assms
  by (simp add: get_transcription_result_def JSONResponse_def error_result_def dict_get_def)

text \<open>
  A result with status \<^verbatim>\<open>success\<close> and a transcript that is not empty. The
  transcript is the body, with status 200, when it holds no float that JSON does not
  have. When it holds one, the response cannot be built: the handler raises, and its
  caller is answered by the handler of \<^verbatim>\<open>main.py\<close> for every exception.
\<close>

lemma get_result_success:
  assumes "store (Some rid) = Some result" and "result_status result = PStr ''success''"
    and "map_of result ''result'' = Some r" and "py_truthy r" and "json_compliant r"
  shows "get_transcription_result store rid = Inr (200, r)"
  using assms by (simp add: get_transcription_result_def result_status_def JSONResponse_def)

lemma get_result_success_refused:
  assumes "store (Some rid) = Some result" and "result_status result = PStr ''success''"
    and "map_of result ''result'' = Some r" and "py_truthy r" and "\<not> json_compliant r"
  shows "get_transcription_result store rid
           = Inl (ValueError ''Out of range float values are not JSON compliant'')"
    and "answer (get_transcription_result store rid)
           = (500, PDict [(''status'', PStr ''error''), (''message'', PStr msg_unhandled)])"
  using assms
  by (simp_all add: get_transcription_result_def result_status_def JSONResponse_def
      ValueError_def answer_def global_exception_handler_def)

text \<open>The upload of the example whose transcript has a start time that is not a number.\<close>

lemma nan_process_audio:
  "process_audio Map.empty nan_asr loaded_proc ''/tmp/up.wav'' = (Inr nan_transcript, loaded_proc)"
  by (simp add: process_audio_def load_model_def initial_proc_def loaded_proc_def nan_asr_def
      demo_asr_def nan_result_def transcript_of_def segment_dict_def dict_get_def py_strip_def
      is_space_def LANGUAGE_def environ_get_def nan_transcript_def)

lemma nan_process_uploaded_file:
  "process_uploaded_file Map.empty nan_asr demo_storage demo_clock loaded_proc ''/tmp/up.wav''
      ''r4'' None 5
   = \<lparr>returned = Inr (success_result (Some ''r4'') (PStr ''transcripts/upload_r4.json'') 2
                        (PDict nan_transcript)),
      globals = store_result loaded_proc (Some ''r4'')
                  (success_result (Some ''r4'') (PStr ''transcripts/upload_r4.json'') 2
                     (PDict nan_transcript)),
      persisted = [(LocalFile ''transcripts/upload_r4.json'', PDict nan_transcript)]\<rparr>"
proof -
  have "save_uploaded_transcript Map.empty demo_storage (PDict nan_transcript) ''r4''
     = (Inr (Some ''transcripts/upload_r4.json''),
        [(LocalFile ''transcripts/upload_r4.json'', PDict nan_transcript)])"
    by (simp add: save_uploaded_transcript_def TRANSCRIPT_BUCKET_def demo_storage_def
        path_join_def Let_def)
  moreover have "cleanup demo_storage ''/tmp/up.wav'' = None"
    by (simp add: cleanup_def demo_storage_def)
  moreover have "end_time demo_clock - start_time demo_clock = 2"
    by (simp add: demo_clock_def)
  ultimately show ?thesis
    by (simp add: process_uploaded_file_def process_uploaded_file_try_def nan_process_audio
        py_finally_def Let_def)
qed

text \<open>
  Claim C8. The look-up raises the \<^verbatim>\<open>HTTPException\<close> with status 404 exactly
  when the request id is not a key of \<^verbatim>\<open>transcription_results\<close>, and it
  answers a stored error result with status 500, the stored message and the stored
  details, as the claim says. Its last part fails on a transcript with a time that is not
  a number. The model of the example returns one; \<^verbatim>\<open>process_uploaded_file\<close>
  copies it into the transcript, writes the transcript with \<^verbatim>\<open>json.dump\<close>,
  which accepts the value, and stores a result with status \<^verbatim>\<open>success\<close>. The
  look-up of that result does not return the transcript with status 200:
  \<^verbatim>\<open>JSONResponse\<close> refuses the value, the handler raises
  \<^verbatim>\<open>ValueError\<close>, and the caller receives status 500 and the body of the
  global exception handler.
\<close>

theorem lookup_of_nan_transcript:
  "returned (process_uploaded_file Map.empty nan_asr demo_storage demo_clock loaded_proc
       ''/tmp/up.wav'' ''r4'' None 5)
     = Inr (success_result (Some ''r4'') (PStr ''transcripts/upload_r4.json'') 2
              (PDict nan_transcript))
   \<and> persisted (process_uploaded_file Map.empty nan_asr demo_storage demo_clock loaded_proc
       ''/tmp/up.wav'' ''r4'' None 5)
     = [(LocalFile ''transcripts/upload_r4.json'', PDict nan_transcript)]
   \<and> transcription_results
       (globals (process_uploaded_file Map.empty nan_asr demo_storage demo_clock loaded_proc
          ''/tmp/up.wav'' ''r4'' None 5)) (Some ''r4'')
     = Some (success_result (Some ''r4'') (PStr ''transcripts/upload_r4.json'') 2
               (PDict nan_transcript))
   \<and> result_status (success_result (Some ''r4'') (PStr ''transcripts/upload_r4.json'') 2
        (PDict nan_transcript)) = PStr ''success''
   \<and> py_truthy (PDict nan_transcript)
   \<and> get_transcription_result
       (transcription_results
          (globals (process_uploaded_file Map.empty nan_asr demo_storage demo_clock loaded_proc
             ''/tmp/up.wav'' ''r4'' None 5))) ''r4''
     = Inl (ValueError ''Out of range float values are not JSON compliant'')
   \<and> answer (get_transcription_result
       (transcription_results
          (globals (process_uploaded_file Map.empty nan_asr demo_storage demo_clock loaded_proc
             ''/tmp/up.wav'' ''r4'' None 5))) ''r4'')
     = (500, PDict [(''status'', PStr ''error''), (''message'', PStr msg_unhandled)])"
proof -
  let ?result = "success_result (Some ''r4'') (PStr ''transcripts/upload_r4.json'') 2
                   (PDict nan_transcript)"
  let ?store = "transcription_results
       (globals (process_uploaded_file Map.empty nan_asr demo_storage demo_clock loaded_proc
          ''/tmp/up.wav'' ''r4'' None 5))"
  have s: "?store (Some ''r4'') = Some ?result"
    by (simp add: nan_process_uploaded_file store_result_def)
  have st: "result_status ?result = PStr ''success''"
    by (simp add: result_status_def success_result_def dict_get_def)
  have r: "map_of ?result ''result'' = Some (PDict nan_transcript)"
    by (simp add: success_result_def)
  have t: "py_truthy (PDict nan_transcript)" by (simp add: nan_transcript_def)
  have n: "\<not> json_compliant (PDict nan_transcript)" by (simp add: nan_transcript_def)
  note g = get_result_success_refused[where store = ?store and rid = "''r4''"
      and result = ?result and r = "PDict nan_transcript", OF s st r t n]
  from g s st t show ?thesis
    by (simp add: nan_process_uploaded_file)
qed
section \<open>Results of the background tasks\<close>
















text \<open>What the removal of the temporary file raises leaves the function.\<close>

lemma process_uploaded_file_cleanup_raises:
  assumes "path_exists sto p" and "os_remove sto p = Some e"
  shows "returned (process_uploaded_file env a sto clk st p rid lang bs) = Inl e"
proof -
  obtain r st1 ws where t: "process_uploaded_file_try env a sto clk st p rid = (r, st1, ws)"
    by (cases "process_uploaded_file_try env a sto clk st p rid") auto
  from assms have "cleanup sto p = Some e" by (simp add: cleanup_def)
  with t show ?thesis
    by (cases r) (simp_all add: process_uploaded_file_def Let_def py_finally_def)
qed






section \<open>The language of a WhisperLive transcript\<close>

text \<open>
  Claim C10. Whenever \<^verbatim>\<open>process_audio\<close> of the WhisperLive service returns a
  transcript, its \<^verbatim>\<open>language\<close> is the constant \<^verbatim>\<open>LANGUAGE\<close>: the value of
  the environment variable of that name, \<^verbatim>\<open>ko\<close> when it is not set. The model,
  the file and the audio are arbitrary, so the field does not depend on them.
\<close>

theorem language_is_configured:
  "process_audio env a st p = (Inr d, st') \<Longrightarrow>
     map_of d ''language'' = Some (PStr (LANGUAGE env))
     \<and> LANGUAGE env = (case env ''LANGUAGE'' of None \<Rightarrow> ''ko'' | Some v \<Rightarrow> v)"
  by (auto simp: process_audio_def transcript_of_def LANGUAGE_def environ_get_def
      split: prod.splits sum.splits if_splits option.splits)

text \<open>The theorem at the example model, with no variable set: the language is \<^verbatim>\<open>ko\<close>.\<close>

theorem language_is_configured_witness:
  "process_audio Map.empty demo_asr initial_proc ''a.wav'' = (Inr demo_transcript, loaded_proc)
   \<and> map_of demo_transcript ''language'' = Some (PStr ''ko'')"
  using language_is_configured[OF demo_process_audio] demo_process_audio
  by (simp add: LANGUAGE_def environ_get_def)


end
